theory Spec2Isabelle
  imports Main "HOL-Library.Word" "HOL-Library.Signed_Division"
begin

unbundle bit_operations_syntax

section \<open>Machine types\<close>

text \<open>
  The library is built for a 64-bit target: \<open>size_t\<close> and pointers are unsigned 64-bit
  values, the counters are \<open>std::atomic<int64_t>\<close>. All three are 64-bit words here; a word
  is read as the signed counter with \<open>sint\<close> and as the unsigned size with \<open>unat\<close>.
  Passing a \<open>size_t\<close> to \<open>operator+=\<close> of an \<open>atomic<int64_t>\<close> converts it to \<open>int64_t\<close>
  (same bits), and the atomic addition wraps around in two's complement.
\<close>

type_synonym size_t = "64 word"
type_synonym int64_t = "64 word"
type_synonym ptr = "64 word"

section \<open>The statistics store (struct SafiStats, library.h)\<close>

record SafiStats =
  m_reserved :: int64_t
  m_total_reserved :: int64_t
  m_real_peak :: int64_t
  m_freed :: int64_t
  m_num_mallocs :: int64_t
  m_num_callocs :: int64_t
  m_num_reallocs :: int64_t
  m_num_frees :: int64_t
  m_enable_trace :: bool
  m_disable_print :: bool

text \<open>The member initialisers: every counter \<open>{0}\<close>, both flags \<open>{false}\<close>.\<close>

definition safiStats_init :: SafiStats where
  "safiStats_init =
     \<lparr>m_reserved = 0, m_total_reserved = 0, m_real_peak = 0, m_freed = 0,
      m_num_mallocs = 0, m_num_callocs = 0, m_num_reallocs = 0, m_num_frees = 0,
      m_enable_trace = False, m_disable_print = False\<rparr>"

text \<open>\<open>std::max(a, b)\<close> on \<open>int64_t\<close>: \<open>(a < b) ? b : a\<close>, a signed comparison.\<close>

definition std_max :: "int64_t \<Rightarrow> int64_t \<Rightarrow> int64_t" where
  "std_max a b = (if a <s b then b else a)"

text \<open>
  \<open>log_alloc_helper\<close>: \<open>m_reserved += size; m_total_reserved += size;
  m_real_peak = std::max(m_real_peak.load(), m_reserved.load())\<close>, run by one thread.
\<close>

definition log_alloc_helper :: "SafiStats \<Rightarrow> size_t \<Rightarrow> SafiStats" where
  "log_alloc_helper s sz =
     (let s1 = s\<lparr>m_reserved := m_reserved s + sz\<rparr>;
          s2 = s1\<lparr>m_total_reserved := m_total_reserved s1 + sz\<rparr>
      in s2\<lparr>m_real_peak := std_max (m_real_peak s2) (m_reserved s2)\<rparr>)"

definition log_malloc :: "SafiStats \<Rightarrow> size_t \<Rightarrow> SafiStats" where
  "log_malloc s sz =
     (let s1 = log_alloc_helper s sz in s1\<lparr>m_num_mallocs := m_num_mallocs s1 + 1\<rparr>)"

definition log_calloc :: "SafiStats \<Rightarrow> size_t \<Rightarrow> SafiStats" where
  "log_calloc s sz =
     (let s1 = log_alloc_helper s sz in s1\<lparr>m_num_callocs := m_num_callocs s1 + 1\<rparr>)"

definition log_realloc :: "SafiStats \<Rightarrow> size_t \<Rightarrow> SafiStats" where
  "log_realloc s sz =
     (let s1 = log_alloc_helper s sz in s1\<lparr>m_num_reallocs := m_num_reallocs s1 + 1\<rparr>)"

definition log_free :: "SafiStats \<Rightarrow> size_t \<Rightarrow> SafiStats" where
  "log_free s sz =
     (let s1 = s\<lparr>m_reserved := m_reserved s - sz\<rparr>;
          s2 = s1\<lparr>m_freed := m_freed s1 + sz\<rparr>
      in s2\<lparr>m_num_frees := m_num_frees s2 + 1\<rparr>)"

definition disablePrint :: "SafiStats \<Rightarrow> SafiStats" where
  "disablePrint s = s\<lparr>m_disable_print := True\<rparr>"

text \<open>\<open>isPrintEnabled\<close> returns the member \<open>m_disable_print\<close> as it is.\<close>

definition isPrintEnabled :: "SafiStats \<Rightarrow> bool" where
  "isPrintEnabled s = m_disable_print s"

subsection \<open>Sequences of record operations\<close>

datatype record_op =
    Log_malloc size_t
  | Log_calloc size_t
  | Log_realloc size_t
  | Log_free size_t

fun apply_record_op :: "SafiStats \<Rightarrow> record_op \<Rightarrow> SafiStats" where
  "apply_record_op s (Log_malloc n) = log_malloc s n"
| "apply_record_op s (Log_calloc n) = log_calloc s n"
| "apply_record_op s (Log_realloc n) = log_realloc s n"
| "apply_record_op s (Log_free n) = log_free s n"

fun run_record_ops :: "SafiStats \<Rightarrow> record_op list \<Rightarrow> SafiStats" where
  "run_record_ops s [] = s"
| "run_record_ops s (x # xs) = run_record_ops (apply_record_op s x) xs"

text \<open>
  A release stays in the signed range when its size, read as \<open>int64_t\<close>, is not negative
  and \<open>m_reserved - size\<close> does not fall below the least \<open>int64_t\<close>.
\<close>

definition free_in_range :: "SafiStats \<Rightarrow> size_t \<Rightarrow> bool" where
  "free_in_range s sz = (0 \<le> sint sz \<and> - (2 ^ 63) \<le> sint (m_reserved s) - sint sz)"

fun frees_in_range :: "SafiStats \<Rightarrow> record_op list \<Rightarrow> bool" where
  "frees_in_range s [] = True"
| "frees_in_range s (x # xs) =
     ((case x of Log_free n \<Rightarrow> free_in_range s n | _ \<Rightarrow> True)
      \<and> frees_in_range (apply_record_op s x) xs)"

section \<open>The report (SafiStats::print, library.h)\<close>

text \<open>
  The lambda \<open>print_size\<close> takes the byte value as \<open>int64_t\<close>. The operator \<open>/\<close> on
  \<open>int64_t\<close> truncates towards zero; the divisor here is the constant 1024.
\<close>

definition units :: "string list" where
  "units = [''B'', ''kB'', ''MB'', ''GB'', ''TB'']"

definition div_1024 :: "int64_t \<Rightarrow> int64_t" where
  "div_1024 sz = word_of_int (sint sz sdiv 1024)"

text \<open>
  \<open>for (i = 0; (size / 1024) > 0 && i < length - 1; i++) size /= 1024;\<close> with
  \<open>length = sizeof(units) / sizeof(units[0])\<close>. The function returns the final \<open>size\<close>
  and \<open>i\<close>.
\<close>

function print_size_loop :: "int64_t \<Rightarrow> nat \<Rightarrow> int64_t \<times> nat" where
  "print_size_loop sz i =
     (if 0 <s div_1024 sz \<and> i < length units - 1
      then print_size_loop (div_1024 sz) (i + 1)
      else (sz, i))"
  by pat_completeness auto
termination
  by (relation "measure (\<lambda>(sz, i). length units - 1 - i)") auto

declare print_size_loop.simps [simp del]

text \<open>Decimal digits of a number, as \<open>%ld\<close> prints a \<open>long\<close>.\<close>

function dec_nat :: "nat \<Rightarrow> string" where
  "dec_nat n =
     (if n < 10 then [''0123456789'' ! n]
      else dec_nat (n div 10) @ [''0123456789'' ! (n mod 10)])"
  by pat_completeness auto
termination
  by (relation "measure (\<lambda>n. n)") auto

declare dec_nat.simps [simp del]

definition dec_long :: "int64_t \<Rightarrow> string" where
  "dec_long v = (if sint v < 0 then CHR ''-'' # dec_nat (nat (- sint v)) else dec_nat (nat (sint v)))"

text \<open>\<open>fprintf(stream, "%s %ld %s\n", prefix, size, units[i])\<close>: the line written.\<close>

definition print_size :: "string \<Rightarrow> int64_t \<Rightarrow> string" where
  "print_size prefix sz =
     (case print_size_loop sz 0 of
        (v, i) \<Rightarrow> prefix @ '' '' @ dec_long v @ '' '' @ units ! i @ [CHR 0x0A])"

text \<open>
  \<open>print\<close>: the lines written to the stream, in order. The formatted local time
  (\<open>time_buffer\<close>) is an input.
\<close>

definition print :: "string \<Rightarrow> SafiStats \<Rightarrow> string list" where
  "print time_buffer s =
     [[CHR 0x0A, CHR 0x0A] @ ''>>>>>>>>>>>>> '' @ time_buffer @ '' <<<<<<<<<<<'' @ [CHR 0x0A],
      ''Overall stats (with alignement):'' @ [CHR 0x0A],
      print_size ''Currently reserved:'' (m_reserved s),
      [CHR 0x0A],
      print_size ''Peak memory:'' (m_real_peak s),
      print_size ''Total reserved:'' (m_total_reserved s),
      print_size ''Total freed:'' (m_freed s),
      [CHR 0x0A],
      ''Number of mallocs: '' @ dec_long (m_num_mallocs s) @ [CHR 0x0A],
      ''Number of callocs: '' @ dec_long (m_num_callocs s) @ [CHR 0x0A],
      ''Number of reallocs: '' @ dec_long (m_num_reallocs s) @ [CHR 0x0A],
      ''Number of frees: '' @ dec_long (m_num_frees s) @ [CHR 0x0A],
      [CHR 0x0A]]"

text \<open>
  The unit the specification names: the largest of B, kB, MB, GB, TB that does not exceed
  the value (B for a value below 1024), as an index into \<open>units\<close>.
\<close>

definition largest_unit :: "int \<Rightarrow> nat" where
  "largest_unit n =
     (if n < 1024 then 0 else if n < 1024 ^ 2 then 1 else if n < 1024 ^ 3 then 2
      else if n < 1024 ^ 4 then 3 else 4)"

text \<open>
  The line of the report for a byte value, in those words: a value that is not negative is
  divided by 1024 to the power of its unit (integer division) and written with the unit; a
  negative value is written as it is, in B.
\<close>

definition scaled_line :: "string \<Rightarrow> int64_t \<Rightarrow> string" where
  "scaled_line prefix v =
     (if 0 \<le> sint v
      then prefix @ '' '' @ dec_nat (nat (sint v div 1024 ^ largest_unit (sint v)))
             @ '' '' @ units ! largest_unit (sint v) @ [CHR 0x0A]
      else prefix @ '' '' @ dec_long v @ '' B'' @ [CHR 0x0A])"

section \<open>The control state (struct SafiControl, library.h)\<close>

text \<open>A function pointer of the control state is \<open>nullptr\<close> or the address \<open>dlsym\<close> found.\<close>

datatype fn_ptr = nullptr | resolved

record SafiControl =
  debug :: bool
  pending_init :: bool
  orig_malloc :: fn_ptr
  orig_calloc :: fn_ptr
  orig_realloc :: fn_ptr
  orig_free :: fn_ptr
  orig_main :: fn_ptr

definition safiControl_init :: SafiControl where
  "safiControl_init =
     \<lparr>debug = False, pending_init = False, orig_malloc = nullptr, orig_calloc = nullptr,
      orig_realloc = nullptr, orig_free = nullptr, orig_main = nullptr\<rparr>"

section \<open>The process around the library\<close>

text \<open>
  What the library calls and does not define is an input of the model: the C library's
  allocator behind the four resolved pointers, \<open>malloc_usable_size\<close>, \<open>dlsym\<close>, \<open>getenv\<close>
  and the address of the static array \<open>temp_buffer\<close>. The real allocator works on a heap
  state of its own (\<open>'h\<close>) and on the memory; nothing is assumed about it. A lookup by
  \<open>dlsym\<close> may ask \<open>malloc\<close> for memory while it runs (the sizes, in order) and answers
  with a pointer or \<open>nullptr\<close>. The expression \<open>new std::thread(__print_safi_stats)\<close>
  allocates through the C++ runtime and the thread library, whose calls of \<open>malloc\<close>,
  \<open>calloc\<close>, \<open>realloc\<close> and \<open>free\<close> come back into this library
  (\<open>thread_requests\<close>, in order).
\<close>

type_synonym memory = "ptr \<Rightarrow> 8 word"

datatype symbol = Sym_malloc | Sym_calloc | Sym_realloc | Sym_free

datatype request =
    Req_malloc size_t
  | Req_calloc size_t size_t
  | Req_realloc ptr size_t
  | Req_free ptr

record 'h libc =
  temp_buffer :: ptr
  getenv_MEM_SAFI_DEBUG :: "string option"
  dlsym :: "symbol \<Rightarrow> size_t list \<times> fn_ptr"
  thread_requests :: "request list"
  real_malloc :: "'h \<Rightarrow> memory \<Rightarrow> size_t \<Rightarrow> ptr \<times> 'h \<times> memory"
  real_calloc :: "'h \<Rightarrow> memory \<Rightarrow> size_t \<Rightarrow> size_t \<Rightarrow> ptr \<times> 'h \<times> memory"
  real_realloc :: "'h \<Rightarrow> memory \<Rightarrow> ptr \<Rightarrow> size_t \<Rightarrow> ptr \<times> 'h \<times> memory"
  real_free :: "'h \<Rightarrow> memory \<Rightarrow> ptr \<Rightarrow> 'h \<times> memory"
  usable_size :: "'h \<Rightarrow> ptr \<Rightarrow> size_t"

text \<open>A call of a real primitive, as the library makes it.\<close>

datatype real_call =
    Call_malloc size_t
  | Call_calloc size_t size_t
  | Call_realloc ptr size_t
  | Call_free ptr

text \<open>
  The globals of library.cpp (\<open>safiStats\<close>, \<open>safiControl\<close>, \<open>print_thread\<close>,
  \<open>used_buffer_size\<close>), the memory, the real allocator's state and the calls made to the
  real primitives so far. \<open>print_thread\<close> counts the thread objects created (0: the
  pointer is null).
\<close>

record 'h world =
  safiStats :: SafiStats
  safiControl :: SafiControl
  print_thread :: nat
  used_buffer_size :: size_t
  mem :: memory
  heap :: 'h
  real_calls :: "real_call list"

definition world_init :: "'h \<Rightarrow> memory \<Rightarrow> 'h world" where
  "world_init h m =
     \<lparr>safiStats = safiStats_init, safiControl = safiControl_init, print_thread = 0,
      used_buffer_size = 0, mem = m, heap = h, real_calls = []\<rparr>"

text \<open>\<open>exit(1)\<close> ends the process; it is the only failure of the library.\<close>

datatype error = Exit int

definition TEMP_BUFFER_SIZE :: size_t where
  "TEMP_BUFFER_SIZE = 80000"

definition PRINT_FREQ_IN_SEC :: nat where
  "PRINT_FREQ_IN_SEC = 5"

text \<open>
  \<open>malloc_usable_size\<close> is the C library's. Its contract gives 0 for a null pointer; for
  any other pointer the allocator answers.
\<close>

definition malloc_usable_size :: "'h libc \<Rightarrow> 'h \<Rightarrow> ptr \<Rightarrow> size_t" where
  "malloc_usable_size env h p = (if p = 0 then 0 else usable_size env h p)"

text \<open>\<open>memset(p, c, n)\<close> and \<open>memmove(dst, src, n)\<close> on the memory.\<close>

definition memset :: "memory \<Rightarrow> ptr \<Rightarrow> 8 word \<Rightarrow> size_t \<Rightarrow> memory" where
  "memset m p c n = (\<lambda>a. if a - p < n then c else m a)"

definition memmove :: "memory \<Rightarrow> ptr \<Rightarrow> ptr \<Rightarrow> size_t \<Rightarrow> memory" where
  "memmove m dst src n = (\<lambda>a. if a - dst < n then m (src + (a - dst)) else m a)"

section \<open>The bootstrap allocator and the initialisation (library.cpp)\<close>

text \<open>
  \<open>__temp_malloc\<close>: the sum \<open>used_buffer_size + size\<close> is computed in \<open>size_t\<close>.
\<close>

definition temp_malloc :: "'h libc \<Rightarrow> size_t \<Rightarrow> 'h world \<Rightarrow> error + (ptr \<times> 'h world)" where
  "temp_malloc env sz w =
     (if used_buffer_size w + sz > TEMP_BUFFER_SIZE then Inl (Exit 1)
      else Inr (temp_buffer env + used_buffer_size w,
                w\<lparr>used_buffer_size := used_buffer_size w + sz\<rparr>))"

text \<open>
  The requests a lookup makes reach \<open>malloc\<close> while \<open>pending_init\<close> is set, where
  \<open>malloc\<close> hands them to \<open>__temp_malloc\<close> before anything else.
\<close>

fun temp_mallocs :: "'h libc \<Rightarrow> size_t list \<Rightarrow> 'h world \<Rightarrow> error + 'h world" where
  "temp_mallocs env [] w = Inr w"
| "temp_mallocs env (n # ns) w =
     (case temp_malloc env n w of
        Inl e \<Rightarrow> Inl e
      | Inr (p, w') \<Rightarrow> temp_mallocs env ns w')"

definition lookup :: "'h libc \<Rightarrow> symbol \<Rightarrow> 'h world \<Rightarrow> error + (fn_ptr \<times> 'h world)" where
  "lookup env name w =
     (case temp_mallocs env (fst (dlsym env name)) w of
        Inl e \<Rightarrow> Inl e
      | Inr w' \<Rightarrow> Inr (snd (dlsym env name), w'))"

text \<open>\<open>SafiControl::init\<close>.\<close>

definition SafiControl_init :: "'h libc \<Rightarrow> 'h world \<Rightarrow> error + 'h world" where
  "SafiControl_init env w =
     (case lookup env Sym_malloc (w\<lparr>safiControl := (safiControl w)\<lparr>pending_init := True\<rparr>\<rparr>) of
        Inl e \<Rightarrow> Inl e
      | Inr (f1, w1) \<Rightarrow>
     (case lookup env Sym_calloc (w1\<lparr>safiControl := (safiControl w1)\<lparr>orig_malloc := f1\<rparr>\<rparr>) of
        Inl e \<Rightarrow> Inl e
      | Inr (f2, w2) \<Rightarrow>
     (case lookup env Sym_realloc (w2\<lparr>safiControl := (safiControl w2)\<lparr>orig_calloc := f2\<rparr>\<rparr>) of
        Inl e \<Rightarrow> Inl e
      | Inr (f3, w3) \<Rightarrow>
     (case lookup env Sym_free (w3\<lparr>safiControl := (safiControl w3)\<lparr>orig_realloc := f3\<rparr>\<rparr>) of
        Inl e \<Rightarrow> Inl e
      | Inr (f4, w4) \<Rightarrow>
          (let c = (safiControl w4)\<lparr>orig_free := f4\<rparr> in
           if orig_malloc c = nullptr \<or> orig_calloc c = nullptr
              \<or> orig_realloc c = nullptr \<or> orig_free c = nullptr
           then Inl (Exit 1)
           else Inr (w4\<lparr>safiControl := c\<lparr>pending_init := False\<rparr>\<rparr>))))))"

section \<open>The interposition layer (library.cpp)\<close>

text \<open>
  Each wrapper ends with the call of the real primitive and the record in the store.
  These last statements are functions of their own here, since \<open>__init_safi\<close> reaches
  them again through the thread it creates. \<open>malloc\<close>:
  \<open>p = orig_malloc(size); log_malloc(malloc_usable_size(p)); return p\<close>.
\<close>

definition malloc_resolved :: "'h libc \<Rightarrow> size_t \<Rightarrow> 'h world \<Rightarrow> ptr \<times> 'h world" where
  "malloc_resolved env sz w =
     (case real_malloc env (heap w) (mem w) sz of
        (p, h, m) \<Rightarrow>
          (p, w\<lparr>heap := h, mem := m,
                 real_calls := real_calls w @ [Call_malloc sz],
                 safiStats := log_malloc (safiStats w) (malloc_usable_size env h p)\<rparr>))"

text \<open>\<open>calloc\<close>: \<open>p = orig_calloc(num, size); log_calloc(malloc_usable_size(p)); return p\<close>.\<close>

definition calloc_resolved ::
  "'h libc \<Rightarrow> size_t \<Rightarrow> size_t \<Rightarrow> 'h world \<Rightarrow> ptr \<times> 'h world" where
  "calloc_resolved env num sz w =
     (case real_calloc env (heap w) (mem w) num sz of
        (p, h, m) \<Rightarrow>
          (p, w\<lparr>heap := h, mem := m,
                 real_calls := real_calls w @ [Call_calloc num sz],
                 safiStats := log_calloc (safiStats w) (malloc_usable_size env h p)\<rparr>))"

text \<open>
  \<open>realloc\<close>: \<open>old_size = malloc_usable_size(ptr); new_ptr = orig_realloc(ptr, size);
  log_realloc(malloc_usable_size(new_ptr) - old_size); return new_ptr\<close>.
\<close>

definition realloc_resolved ::
  "'h libc \<Rightarrow> ptr \<Rightarrow> size_t \<Rightarrow> 'h world \<Rightarrow> ptr \<times> 'h world" where
  "realloc_resolved env p sz w =
     (let old_size = malloc_usable_size env (heap w) p
      in case real_realloc env (heap w) (mem w) p sz of
           (new_ptr, h, m) \<Rightarrow>
             (new_ptr,
              w\<lparr>heap := h, mem := m,
                real_calls := real_calls w @ [Call_realloc p sz],
                safiStats :=
                  log_realloc (safiStats w) (malloc_usable_size env h new_ptr - old_size)\<rparr>))"

text \<open>\<open>free\<close>: \<open>size = malloc_usable_size(ptr); log_free(size); orig_free(ptr)\<close>.\<close>

definition free_resolved :: "'h libc \<Rightarrow> ptr \<Rightarrow> 'h world \<Rightarrow> 'h world" where
  "free_resolved env p w =
     (let sz = malloc_usable_size env (heap w) p;
          w2 = w\<lparr>safiStats := log_free (safiStats w) sz\<rparr>
      in case real_free env (heap w2) (mem w2) p of
           (h, m) \<Rightarrow> w2\<lparr>heap := h, mem := m, real_calls := real_calls w2 @ [Call_free p]\<rparr>)"

text \<open>
  A call that comes back into the library while the thread is created finds
  \<open>pending_init\<close> cleared and the four pointers resolved, since \<open>SafiControl::init\<close> has
  returned: \<open>malloc\<close>, \<open>calloc\<close> and \<open>realloc\<close> go straight to their last statements,
  \<open>free\<close> after its test of the arena.
\<close>

fun thread_request :: "'h libc \<Rightarrow> 'h world \<Rightarrow> request \<Rightarrow> 'h world" where
  "thread_request env w (Req_malloc n) = snd (malloc_resolved env n w)"
| "thread_request env w (Req_calloc k n) = snd (calloc_resolved env k n w)"
| "thread_request env w (Req_realloc p n) = snd (realloc_resolved env p n w)"
| "thread_request env w (Req_free p) =
     (if temp_buffer env \<le> p \<and> p \<le> temp_buffer env + used_buffer_size w then w
      else free_resolved env p w)"

text \<open>
  \<open>__init_safi\<close>: the debug flag from the environment, the resolution, then
  \<open>print_thread = new std::thread(__print_safi_stats)\<close> with the calls it makes back into
  the library.
\<close>

definition init_safi :: "'h libc \<Rightarrow> 'h world \<Rightarrow> error + 'h world" where
  "init_safi env w =
     (let w1 = (if getenv_MEM_SAFI_DEBUG env = Some ''1''
                then w\<lparr>safiControl := (safiControl w)\<lparr>debug := True\<rparr>\<rparr> else w)
      in case SafiControl_init env w1 of
           Inl e \<Rightarrow> Inl e
         | Inr w2 \<Rightarrow>
             (let w3 = foldl (thread_request env) w2 (thread_requests env)
              in Inr (w3\<lparr>print_thread := print_thread w3 + 1\<rparr>)))"

text \<open>The four wrappers.\<close>

definition malloc :: "'h libc \<Rightarrow> size_t \<Rightarrow> 'h world \<Rightarrow> error + (ptr \<times> 'h world)" where
  "malloc env sz w =
     (if pending_init (safiControl w) then temp_malloc env sz w
      else
        case (if orig_malloc (safiControl w) = nullptr then init_safi env w else Inr w) of
          Inl e \<Rightarrow> Inl e
        | Inr w1 \<Rightarrow> Inr (malloc_resolved env sz w1))"

definition calloc :: "'h libc \<Rightarrow> size_t \<Rightarrow> size_t \<Rightarrow> 'h world \<Rightarrow> error + (ptr \<times> 'h world)" where
  "calloc env num sz w =
     (if orig_calloc (safiControl w) = nullptr then
        (case malloc env (num * sz) w of
           Inl e \<Rightarrow> Inl e
         | Inr (p, w1) \<Rightarrow>
             Inr (p, if p \<noteq> 0 then w1\<lparr>mem := memset (mem w1) p 0 (num * sz)\<rparr> else w1))
      else Inr (calloc_resolved env num sz w))"

definition free :: "'h libc \<Rightarrow> ptr \<Rightarrow> 'h world \<Rightarrow> error + 'h world" where
  "free env p w =
     (if temp_buffer env \<le> p \<and> p \<le> temp_buffer env + used_buffer_size w then Inr w
      else
        case (if orig_free (safiControl w) = nullptr then init_safi env w else Inr w) of
          Inl e \<Rightarrow> Inl e
        | Inr w1 \<Rightarrow> Inr (free_resolved env p w1))"

definition realloc :: "'h libc \<Rightarrow> ptr \<Rightarrow> size_t \<Rightarrow> 'h world \<Rightarrow> error + (ptr \<times> 'h world)" where
  "realloc env p sz w =
     (if orig_realloc (safiControl w) = nullptr then
        (case malloc env sz w of
           Inl e \<Rightarrow> Inl e
         | Inr (new_ptr, w1) \<Rightarrow>
             if new_ptr \<noteq> 0 \<and> p \<noteq> 0 then
               (case free env p (w1\<lparr>mem := memmove (mem w1) new_ptr p sz\<rparr>) of
                  Inl e \<Rightarrow> Inl e
                | Inr w2 \<Rightarrow> Inr (new_ptr, w2))
             else Inr (new_ptr, w1))
      else Inr (realloc_resolved env p sz w))"

text \<open>
  The static array \<open>temp_buffer[TEMP_BUFFER_SIZE]\<close> occupies the addresses from
  \<open>temp_buffer\<close> up to, not including, \<open>temp_buffer + TEMP_BUFFER_SIZE\<close>.
\<close>

definition in_temp_buffer :: "'h libc \<Rightarrow> ptr \<Rightarrow> bool" where
  "in_temp_buffer env p = (p - temp_buffer env < TEMP_BUFFER_SIZE)"

section \<open>The reporting thread (library.cpp)\<close>

text \<open>
  \<open>__print_safi_stats\<close> is
  \<open>while (!safiStats.isPrintEnabled()) { sleep_for(seconds(PRINT_FREQ_IN_SEC)); safiStats.print(); }\<close>.
  The thread is at the loop test, in the sleep, at the call of \<open>print\<close>, or has returned.
  One step takes it to the next of these points; the sleep and the report are recorded
  when they complete. The flag is read from the shared store at the loop test only.
\<close>

datatype daemon_pc = At_loop_test | At_sleep | At_print | Returned

datatype daemon_event = Sleep_for nat | Print

record daemon_sys =
  shared_stats :: SafiStats
  pc :: daemon_pc
  trace :: "daemon_event list"

definition print_safi_stats_step :: "daemon_sys \<Rightarrow> daemon_sys" where
  "print_safi_stats_step s =
     (case pc s of
        At_loop_test \<Rightarrow>
          if \<not> isPrintEnabled (shared_stats s) then s\<lparr>pc := At_sleep\<rparr> else s\<lparr>pc := Returned\<rparr>
      | At_sleep \<Rightarrow> s\<lparr>pc := At_print, trace := trace s @ [Sleep_for PRINT_FREQ_IN_SEC]\<rparr>
      | At_print \<Rightarrow> s\<lparr>pc := At_loop_test, trace := trace s @ [Print]\<rparr>
      | Returned \<Rightarrow> s)"

text \<open>
  The threads interleave: the reporting thread takes a step, \<open>main_hook\<close> calls
  \<open>disablePrint\<close>, or an application thread records an operation in the store.
\<close>

datatype action = Daemon_step | Main_disablePrint | App_record record_op

fun sys_step :: "daemon_sys \<Rightarrow> action \<Rightarrow> daemon_sys" where
  "sys_step s Daemon_step = print_safi_stats_step s"
| "sys_step s Main_disablePrint = s\<lparr>shared_stats := disablePrint (shared_stats s)\<rparr>"
| "sys_step s (App_record x) = s\<lparr>shared_stats := apply_record_op (shared_stats s) x\<rparr>"

fun run_actions :: "daemon_sys \<Rightarrow> action list \<Rightarrow> daemon_sys" where
  "run_actions s [] = s"
| "run_actions s (a # as) = run_actions (sys_step s a) as"

text \<open>What is left of the iteration the thread is in.\<close>

fun rest_of_iteration :: "daemon_pc \<Rightarrow> daemon_event list" where
  "rest_of_iteration At_loop_test = []"
| "rest_of_iteration At_sleep = [Sleep_for PRINT_FREQ_IN_SEC, Print]"
| "rest_of_iteration At_print = [Print]"
| "rest_of_iteration Returned = []"

text \<open>The steps the thread needs to return once the flag is set.\<close>

fun steps_to_return :: "daemon_pc \<Rightarrow> nat" where
  "steps_to_return At_loop_test = 1"
| "steps_to_return At_sleep = 3"
| "steps_to_return At_print = 2"
| "steps_to_return Returned = 0"

text \<open>The thread as \<open>__init_safi\<close> starts it, with the store as initialised.\<close>

definition daemon_start :: daemon_sys where
  "daemon_start = \<lparr>shared_stats = safiStats_init, pc = At_loop_test, trace = []\<rparr>"

section \<open>A small allocator to run the model on\<close>

text \<open>
  An instance of the process around the library, for evaluating the definitions at
  concrete inputs: a bump allocator whose blocks have the usable sizes 24, 40, 56, ...
  (the request rounded up), that answers a request above 4 GiB with a null pointer and
  ignores the release of a null pointer; the heap state is the usable size of every live
  block and the next free address. Every lookup by \<open>dlsym\<close> asks for 32 bytes and
  succeeds, and the creation of the thread calls \<open>malloc(8)\<close>, \<open>malloc(24)\<close> and
  \<open>calloc(1, 288)\<close>.
\<close>

type_synonym toy_heap = "(ptr \<Rightarrow> size_t) \<times> ptr"

definition toy_round :: "size_t \<Rightarrow> size_t" where
  "toy_round n = (if n \<le> 24 then 24 else (n + 7) div 16 * 16 + 8)"

definition toy_malloc :: "toy_heap \<Rightarrow> memory \<Rightarrow> size_t \<Rightarrow> ptr \<times> toy_heap \<times> memory" where
  "toy_malloc h m n =
     (if n > 0x100000000 then (0, h, m)
      else (snd h, ((fst h)(snd h := toy_round n), snd h + toy_round n + 8), m))"

definition toy_calloc :: "toy_heap \<Rightarrow> memory \<Rightarrow> size_t \<Rightarrow> size_t \<Rightarrow> ptr \<times> toy_heap \<times> memory" where
  "toy_calloc h m k n =
     (case toy_malloc h m (k * n) of
        (p, h', m') \<Rightarrow> (p, h', if p = 0 then m' else memset m' p 0 (k * n)))"

definition toy_free :: "toy_heap \<Rightarrow> memory \<Rightarrow> ptr \<Rightarrow> toy_heap \<times> memory" where
  "toy_free h m p = (if p = 0 then (h, m) else (((fst h)(p := 0), snd h), m))"

definition toy_realloc :: "toy_heap \<Rightarrow> memory \<Rightarrow> ptr \<Rightarrow> size_t \<Rightarrow> ptr \<times> toy_heap \<times> memory" where
  "toy_realloc h m p n =
     (case toy_malloc h m n of
        (q, h', m') \<Rightarrow>
          if q = 0 then (0, h, m)
          else (q, ((fst h')(p := 0), snd h'), memmove m' q p (fst h p)))"

definition toy_libc :: "toy_heap libc" where
  "toy_libc =
     \<lparr>temp_buffer = 0x601000, getenv_MEM_SAFI_DEBUG = None,
      dlsym = (\<lambda>_. ([32], resolved)),
      thread_requests = [Req_malloc 8, Req_malloc 24, Req_calloc 1 288],
      real_malloc = toy_malloc, real_calloc = toy_calloc, real_realloc = toy_realloc,
      real_free = toy_free, usable_size = (\<lambda>h p. fst h p)\<rparr>"

definition toy_heap_init :: toy_heap where
  "toy_heap_init = ((\<lambda>_. 0), 0x1000000)"

text \<open>The process at start: the globals as initialised, every byte of memory \<open>0xAA\<close>.\<close>

definition toy_start :: "toy_heap world" where
  "toy_start = world_init toy_heap_init (\<lambda>_. 0xAA)"

text \<open>
  Three states of that process: inside the first lookup of \<open>SafiControl::init\<close>
  (\<open>pending_init\<close> set, nothing resolved yet), after \<open>__init_safi\<close>, and after a first
  \<open>malloc(100)\<close>.
\<close>

definition toy_pending :: "toy_heap world" where
  "toy_pending = toy_start\<lparr>safiControl := (safiControl toy_start)\<lparr>pending_init := True\<rparr>\<rparr>"

definition toy_resolved :: "toy_heap world" where
  "toy_resolved = (case init_safi toy_libc toy_start of Inr w \<Rightarrow> w | Inl e \<Rightarrow> toy_start)"

definition toy_running :: "toy_heap world" where
  "toy_running = (case malloc toy_libc 100 toy_start of Inr (p, w) \<Rightarrow> w | Inl e \<Rightarrow> toy_start)"

section \<open>Properties of the statistics store\<close>

lemmas log_defs = log_alloc_helper_def log_malloc_def log_calloc_def log_realloc_def
  log_free_def Let_def

lemma balance_step:
  "m_reserved s = m_total_reserved s - m_freed s \<Longrightarrow>
   m_reserved (apply_record_op s x) =
     m_total_reserved (apply_record_op s x) - m_freed (apply_record_op s x)"
  by (cases x) (simp_all add: log_defs)

lemma balance_run:
  "m_reserved s = m_total_reserved s - m_freed s \<Longrightarrow>
   m_reserved (run_record_ops s ops) =
     m_total_reserved (run_record_ops s ops) - m_freed (run_record_ops s ops)"
proof (induction ops arbitrary: s)
  case Nil
  then show ?case by simp
next
  case (Cons x xs)
  from Cons.prems have "m_reserved (apply_record_op s x) =
      m_total_reserved (apply_record_op s x) - m_freed (apply_record_op s x)"
    by (rule balance_step)
  then show ?case using Cons.IH by simp
qed

text \<open>
  C1. After any finite sequence of \<open>log_malloc\<close>, \<open>log_calloc\<close>, \<open>log_realloc\<close> and
  \<open>log_free\<close> calls on the zero-initialised store, run by one thread, the counters satisfy
  \<open>m_reserved == m_total_reserved - m_freed\<close> (64-bit arithmetic). Every prefix of a
  sequence is a sequence, so the equation holds after each operation.
\<close>

theorem reserved_is_total_minus_freed:
  "m_reserved (run_record_ops safiStats_init ops) =
     m_total_reserved (run_record_ops safiStats_init ops)
       - m_freed (run_record_ops safiStats_init ops)"
  by (rule balance_run) (simp add: safiStats_init_def)

text \<open>
  C2 (as amended). \<open>log_realloc(delta)\<close> adds \<open>delta\<close>, which may be negative as a signed
  value, to \<open>m_reserved\<close> and also to \<open>m_total_reserved\<close>, then sets \<open>m_real_peak\<close> to
  the larger of \<open>m_real_peak\<close> and the new \<open>m_reserved\<close> (signed), and adds one to
  \<open>m_num_reallocs\<close>; no other member changes. All three recorders go through
  \<open>log_alloc_helper\<close>, so all three add to \<open>m_total_reserved\<close>.
\<close>

theorem log_realloc_effect:
  "log_realloc s delta =
     s\<lparr>m_reserved := m_reserved s + delta,
       m_total_reserved := m_total_reserved s + delta,
       m_real_peak := std_max (m_real_peak s) (m_reserved s + delta),
       m_num_reallocs := m_num_reallocs s + 1\<rparr>
   \<and> sint (std_max (m_real_peak s) (m_reserved s + delta)) =
       max (sint (m_real_peak s)) (sint (m_reserved s + delta))"
  by (simp add: log_realloc_def log_alloc_helper_def Let_def std_max_def word_sless_alt max_def)

text \<open>
  The claim as first stated says that \<open>log_realloc\<close> leaves \<open>m_total_reserved\<close> alone.
  On the zero-initialised store, \<open>log_realloc(16)\<close> changes it.
\<close>

theorem log_realloc_changes_total_reserved:
  "m_total_reserved (log_realloc safiStats_init 16) \<noteq> m_total_reserved safiStats_init"
  by (simp add: safiStats_init_def log_realloc_def log_alloc_helper_def Let_def)

subsection \<open>The peak\<close>

lemma sint_sub_in_range:
  fixes a b :: "64 word"
  assumes "- (2 ^ 63) \<le> sint a - sint b" and "sint a - sint b < 2 ^ 63"
  shows "sint (a - b) = sint a - sint b"
proof -
  have "sint (a - b) = signed_take_bit 63 (sint a - sint b)"
    by (simp add: sint_word_ariths)
  also have "\<dots> = sint a - sint b"
    using assms by (intro signed_take_bit_int_eq_self) simp_all
  finally show ?thesis .
qed

lemma peak_after_alloc_helper:
  "m_reserved (log_alloc_helper s n) \<le>s m_real_peak (log_alloc_helper s n)"
  by (simp add: log_alloc_helper_def Let_def std_max_def word_sle_eq word_sless_alt)

lemma peak_after_free:
  assumes "m_reserved s \<le>s m_real_peak s" and "free_in_range s n"
  shows "m_reserved (log_free s n) \<le>s m_real_peak (log_free s n)"
proof -
  have lt: "sint (m_reserved s) < 2 ^ 63"
    using sint_lt [of "m_reserved s"] by simp
  from assms(2) have nonneg: "0 \<le> sint n"
    and lo: "- (2 ^ 63) \<le> sint (m_reserved s) - sint n"
    by (simp_all add: free_in_range_def)
  from nonneg lt have hi: "sint (m_reserved s) - sint n < 2 ^ 63" by linarith
  have "sint (m_reserved s - n) = sint (m_reserved s) - sint n"
    using lo hi by (rule sint_sub_in_range)
  with nonneg assms(1) show ?thesis
    by (simp add: log_free_def Let_def word_sle_eq)
qed

lemma peak_step:
  assumes "m_reserved s \<le>s m_real_peak s"
    and "case x of Log_free n \<Rightarrow> free_in_range s n | _ \<Rightarrow> True"
  shows "m_reserved (apply_record_op s x) \<le>s m_real_peak (apply_record_op s x)"
proof (cases x)
  case (Log_free n)
  with assms show ?thesis by (simp add: peak_after_free)
next
  case (Log_malloc n)
  then show ?thesis using peak_after_alloc_helper [of s n] by (simp add: log_malloc_def Let_def)
next
  case (Log_calloc n)
  then show ?thesis using peak_after_alloc_helper [of s n] by (simp add: log_calloc_def Let_def)
next
  case (Log_realloc n)
  then show ?thesis using peak_after_alloc_helper [of s n] by (simp add: log_realloc_def Let_def)
qed

lemma peak_run:
  "m_reserved s \<le>s m_real_peak s \<Longrightarrow> frees_in_range s ops \<Longrightarrow>
   m_reserved (run_record_ops s ops) \<le>s m_real_peak (run_record_ops s ops)"
proof (induction ops arbitrary: s)
  case Nil
  then show ?case by simp
next
  case (Cons x xs)
  from Cons.prems have "m_reserved (apply_record_op s x) \<le>s m_real_peak (apply_record_op s x)"
    by (intro peak_step) simp_all
  moreover from Cons.prems have "frees_in_range (apply_record_op s x) xs" by simp
  ultimately show ?case using Cons.IH by simp
qed

text \<open>
  C3 (as amended). After any finite sequence of record operations on the zero-initialised
  store, run by one thread, \<open>m_real_peak >= m_reserved\<close> (signed comparison), provided
  every \<open>log_free\<close> of the sequence stays in the signed range: its size is not negative
  as \<open>int64_t\<close> and \<open>m_reserved - size\<close> does not wrap below the least \<open>int64_t\<close>. The
  three allocation recorders need no condition, whatever the sign of the resize delta.
\<close>

theorem peak_covers_reserved:
  "frees_in_range safiStats_init ops \<Longrightarrow>
   m_reserved (run_record_ops safiStats_init ops)
     \<le>s m_real_peak (run_record_ops safiStats_init ops)"
  by (rule peak_run) (simp_all add: safiStats_init_def)

theorem peak_covers_reserved_witness:
  "frees_in_range safiStats_init [Log_malloc 104, Log_calloc 88, Log_realloc (- 32), Log_free 72]
   \<and> run_record_ops safiStats_init [Log_malloc 104, Log_calloc 88, Log_realloc (- 32), Log_free 72]
       = safiStats_init\<lparr>m_reserved := 88, m_total_reserved := 160, m_real_peak := 192,
           m_freed := 72, m_num_mallocs := 1, m_num_callocs := 1, m_num_reallocs := 1,
           m_num_frees := 1\<rparr>
   \<and> m_reserved (run_record_ops safiStats_init
          [Log_malloc 104, Log_calloc 88, Log_realloc (- 32), Log_free 72])
       \<le>s m_real_peak (run_record_ops safiStats_init
          [Log_malloc 104, Log_calloc 88, Log_realloc (- 32), Log_free 72])"
proof -
  have ok: "frees_in_range safiStats_init
      [Log_malloc 104, Log_calloc 88, Log_realloc (- 32), Log_free 72]"
    by (simp add: free_in_range_def safiStats_init_def log_malloc_def log_calloc_def
        log_realloc_def log_alloc_helper_def Let_def std_max_def word_sless_alt)
  have run: "run_record_ops safiStats_init
      [Log_malloc 104, Log_calloc 88, Log_realloc (- 32), Log_free 72]
       = safiStats_init\<lparr>m_reserved := 88, m_total_reserved := 160, m_real_peak := 192,
           m_freed := 72, m_num_mallocs := 1, m_num_callocs := 1, m_num_reallocs := 1,
           m_num_frees := 1\<rparr>"
    by (simp add: safiStats_init_def log_malloc_def log_calloc_def log_realloc_def log_free_def
        log_alloc_helper_def Let_def std_max_def word_sless_alt)
  from ok run peak_covers_reserved [OF ok] show ?thesis by simp
qed

text \<open>
  Without the condition the claim fails: two releases of \<open>2^62\<close> bytes take \<open>m_reserved\<close>
  to the least \<open>int64_t\<close>, and the release of one more byte wraps it to the greatest,
  above \<open>m_real_peak\<close>, which is still 0.
\<close>

theorem peak_below_reserved_after_wrap:
  "\<not> m_reserved (run_record_ops safiStats_init
          [Log_free 4611686018427387904, Log_free 4611686018427387904, Log_free 1])
       \<le>s m_real_peak (run_record_ops safiStats_init
          [Log_free 4611686018427387904, Log_free 4611686018427387904, Log_free 1])"
  by (simp add: safiStats_init_def log_free_def Let_def word_sle_eq)

section \<open>Properties of the report\<close>

lemma le_div_1024: "(k \<le> (n::int) div 1024) = (k * 1024 \<le> n)"
proof
  assume "k \<le> n div 1024"
  then have "k * 1024 \<le> n div 1024 * 1024" by simp
  also have "\<dots> \<le> n"
    using div_mult_mod_eq [of n 1024] pos_mod_sign [of 1024 n] by linarith
  finally show "k * 1024 \<le> n" .
next
  assume "k * 1024 \<le> n"
  then have "k * 1024 div 1024 \<le> n div 1024" by (intro zdiv_mono1) simp_all
  then show "k \<le> n div 1024" by simp
qed

lemma sint_div_1024:
  assumes "0 \<le> sint sz"
  shows "sint (div_1024 sz) = sint sz div 1024"
proof -
  have sd: "sint sz sdiv 1024 = sint sz div 1024"
    using assms by (simp add: signed_divide_int_def sgn_if)
  have "sint sz < 2 ^ 63" using sint_lt [of sz] by simp
  then have hi: "sint sz div 1024 < 2 ^ 63" using assms by simp
  have lo: "0 \<le> sint sz div 1024" using assms by simp
  have "sint (div_1024 sz) = signed_take_bit 63 (sint sz div 1024)"
    by (simp add: div_1024_def sd sint_sbintrunc')
  also have "\<dots> = sint sz div 1024"
    using lo hi by (intro signed_take_bit_int_eq_self) simp_all
  finally show ?thesis .
qed

lemma div_1024_negative:
  assumes "sint sz < 0"
  shows "\<not> 0 <s div_1024 sz"
proof -
  define a where "a = - sint sz"
  have a: "0 < a" "a \<le> 2 ^ 63" using assms sint_ge [of sz] by (simp_all add: a_def)
  have sd: "sint sz sdiv 1024 = - (a div 1024)"
    using assms by (simp add: signed_divide_int_def sgn_if a_def)
  have "a div 1024 < a" using a(1) by (rule int_div_less_self) simp
  moreover have "0 \<le> a div 1024" using a(1) by simp
  ultimately have le0: "sint sz sdiv 1024 \<le> 0" and lo: "- (2 ^ 63) \<le> sint sz sdiv 1024"
    using a(2) unfolding sd by linarith+
  from le0 lo have "sint (div_1024 sz) = sint sz sdiv 1024"
    by (simp add: div_1024_def sint_sbintrunc' signed_take_bit_int_eq_self)
  with le0 show ?thesis by (simp add: word_sless_alt)
qed

lemma print_size_loop_step:
  assumes "0 \<le> sint sz"
  shows "print_size_loop sz i =
    (if 1024 \<le> sint sz \<and> i < 4 then print_size_loop (div_1024 sz) (Suc i) else (sz, i))"
proof -
  have "0 <s div_1024 sz \<longleftrightarrow> 1024 \<le> sint sz"
    using assms by (simp add: word_sless_alt sint_div_1024 pos_imp_zdiv_pos_iff)
  then show ?thesis
    by (subst print_size_loop.simps) (simp add: units_def)
qed

lemma print_size_loop_nonneg:
  assumes "0 \<le> sint sz"
  shows "\<exists>v. print_size_loop sz 0 = (v, largest_unit (sint sz))
            \<and> sint v = sint sz div 1024 ^ largest_unit (sint sz)"
proof -
  define s1 where "s1 = div_1024 sz"
  define s2 where "s2 = div_1024 s1"
  define s3 where "s3 = div_1024 s2"
  define s4 where "s4 = div_1024 s3"
  have e1: "sint s1 = sint sz div 1024" unfolding s1_def using assms by (rule sint_div_1024)
  then have n1: "0 \<le> sint s1" using assms by simp
  have e2: "sint s2 = sint s1 div 1024" unfolding s2_def using n1 by (rule sint_div_1024)
  then have n2: "0 \<le> sint s2" using n1 by simp
  have e3: "sint s3 = sint s2 div 1024" unfolding s3_def using n2 by (rule sint_div_1024)
  then have n3: "0 \<le> sint s3" using n2 by simp
  have e4: "sint s4 = sint s3 div 1024" unfolding s4_def using n3 by (rule sint_div_1024)
  have c1: "1024 \<le> sint s1 \<longleftrightarrow> 1048576 \<le> sint sz"
    unfolding e1 by (simp add: le_div_1024)
  have c2: "1024 \<le> sint s2 \<longleftrightarrow> 1073741824 \<le> sint sz"
    unfolding e2 e1 by (simp add: le_div_1024)
  have c3: "1024 \<le> sint s3 \<longleftrightarrow> 1099511627776 \<le> sint sz"
    unfolding e3 e2 e1 by (simp add: le_div_1024)
  have d2: "sint s2 = sint sz div 1024 ^ 2"
    unfolding e2 e1 by (simp add: zdiv_zmult2_eq [symmetric])
  have d3: "sint s3 = sint sz div 1024 ^ 3"
    unfolding e3 e2 e1 by (simp add: zdiv_zmult2_eq [symmetric])
  have d4: "sint s4 = sint sz div 1024 ^ 4"
    unfolding e4 e3 e2 e1 by (simp add: zdiv_zmult2_eq [symmetric])
  have l0: "print_size_loop sz 0 = (if 1024 \<le> sint sz then print_size_loop s1 (Suc 0) else (sz, 0))"
    by (subst print_size_loop_step [OF assms]) (simp add: s1_def)
  have l1: "print_size_loop s1 (Suc 0) =
      (if 1048576 \<le> sint sz then print_size_loop s2 (Suc (Suc 0)) else (s1, 1))"
    by (subst print_size_loop_step [OF n1]) (simp add: c1 s2_def)
  have l2: "print_size_loop s2 (Suc (Suc 0)) =
      (if 1073741824 \<le> sint sz then print_size_loop s3 (Suc (Suc (Suc 0))) else (s2, 2))"
    by (subst print_size_loop_step [OF n2]) (simp add: c2 s3_def)
  have l3: "print_size_loop s3 (Suc (Suc (Suc 0))) =
      (if 1099511627776 \<le> sint sz then print_size_loop s4 (Suc (Suc (Suc (Suc 0)))) else (s3, 3))"
    by (subst print_size_loop_step [OF n3]) (simp add: c3 s4_def)
  have l4: "print_size_loop s4 (Suc (Suc (Suc (Suc 0)))) = (s4, 4)"
    by (subst print_size_loop.simps) (simp add: units_def)
  show ?thesis
    unfolding l0 l1 l2 l3 l4 largest_unit_def using e1 d2 d3 d4 by simp
qed

lemma dec_nat_digit: "n < 10 \<Longrightarrow> dec_nat n = [''0123456789'' ! n]"
  by (subst dec_nat.simps) simp

lemma dec_nat_more:
  "10 \<le> n \<Longrightarrow> dec_nat n = dec_nat (n div 10) @ [''0123456789'' ! (n mod 10)]"
  by (subst dec_nat.simps) simp

lemma print_size_loop_negative:
  assumes "sint sz < 0"
  shows "print_size_loop sz 0 = (sz, 0)"
  using div_1024_negative [OF assms] by (subst print_size_loop.simps) simp

lemma largest_unit_is_largest:
  "0 \<le> n \<Longrightarrow>
   largest_unit n \<le> 4 \<and> (0 < largest_unit n \<longrightarrow> 1024 ^ largest_unit n \<le> n)
   \<and> (largest_unit n < 4 \<longrightarrow> n < 1024 ^ (largest_unit n + 1))"
  by (simp add: largest_unit_def)

lemma print_size_scaled_line: "print_size prefix sz = scaled_line prefix sz"
proof (cases "0 \<le> sint sz")
  case True
  from print_size_loop_nonneg [OF True] obtain v where
    loop: "print_size_loop sz 0 = (v, largest_unit (sint sz))"
    and v: "sint v = sint sz div 1024 ^ largest_unit (sint sz)" by blast
  from True v have "0 \<le> sint v" by (simp add: pos_imp_zdiv_nonneg_iff)
  then have "dec_long v = dec_nat (nat (sint sz div 1024 ^ largest_unit (sint sz)))"
    using v by (simp add: dec_long_def)
  with True show ?thesis by (simp add: print_size_def loop scaled_line_def)
next
  case False
  then have "sint sz < 0" by simp
  from print_size_loop_negative [OF this] False show ?thesis
    by (simp add: print_size_def scaled_line_def units_def)
qed

text \<open>
  C9 (as amended). The report, \<open>print\<close>, writes the four byte values (reserved, peak, total
  reserved, total freed) each on a line of its own: a value that is not negative is scaled
  by repeated division by 1024 to the largest of B, kB, MB, GB, TB that does not exceed it
  (B below 1024); a negative value is written as it is, in B. The four counts follow
  unscaled. In particular a reserved value of 5242880 bytes is written as \<open>5 MB\<close>.
\<close>

theorem print_scales_byte_values:
  "print time_buffer s =
     [[CHR 0x0A, CHR 0x0A] @ ''>>>>>>>>>>>>> '' @ time_buffer @ '' <<<<<<<<<<<'' @ [CHR 0x0A],
      ''Overall stats (with alignement):'' @ [CHR 0x0A],
      scaled_line ''Currently reserved:'' (m_reserved s),
      [CHR 0x0A],
      scaled_line ''Peak memory:'' (m_real_peak s),
      scaled_line ''Total reserved:'' (m_total_reserved s),
      scaled_line ''Total freed:'' (m_freed s),
      [CHR 0x0A],
      ''Number of mallocs: '' @ dec_long (m_num_mallocs s) @ [CHR 0x0A],
      ''Number of callocs: '' @ dec_long (m_num_callocs s) @ [CHR 0x0A],
      ''Number of reallocs: '' @ dec_long (m_num_reallocs s) @ [CHR 0x0A],
      ''Number of frees: '' @ dec_long (m_num_frees s) @ [CHR 0x0A],
      [CHR 0x0A]]"
  by (simp add: print_def print_size_scaled_line)

theorem print_scales_byte_values_witness:
  "print ''now'' (run_record_ops safiStats_init [Log_malloc 5242880]) =
     [[CHR 0x0A, CHR 0x0A] @ ''>>>>>>>>>>>>> now <<<<<<<<<<<'' @ [CHR 0x0A],
      ''Overall stats (with alignement):'' @ [CHR 0x0A],
      ''Currently reserved: 5 MB'' @ [CHR 0x0A],
      [CHR 0x0A],
      ''Peak memory: 5 MB'' @ [CHR 0x0A],
      ''Total reserved: 5 MB'' @ [CHR 0x0A],
      ''Total freed: 0 B'' @ [CHR 0x0A],
      [CHR 0x0A],
      ''Number of mallocs: 1'' @ [CHR 0x0A],
      ''Number of callocs: 0'' @ [CHR 0x0A],
      ''Number of reallocs: 0'' @ [CHR 0x0A],
      ''Number of frees: 0'' @ [CHR 0x0A],
      [CHR 0x0A]]"
proof -
  have s: "run_record_ops safiStats_init [Log_malloc 5242880]
      = safiStats_init\<lparr>m_reserved := 5242880, m_total_reserved := 5242880,
          m_real_peak := 5242880, m_num_mallocs := 1\<rparr>"
    by (simp add: safiStats_init_def log_defs std_max_def word_sless_alt)
  have mb: "scaled_line p 5242880 = p @ '' 5 MB'' @ [CHR 0x0A]" for p
    by (simp add: scaled_line_def largest_unit_def units_def dec_nat_digit)
  have b0: "scaled_line p 0 = p @ '' 0 B'' @ [CHR 0x0A]" for p
    by (simp add: scaled_line_def largest_unit_def units_def dec_nat_digit)
  have d: "dec_long 0 = ''0''" "dec_long 1 = ''1''"
    by (simp_all add: dec_long_def dec_nat_digit)
  show ?thesis
    using print_scales_byte_values [of "''now''" "run_record_ops safiStats_init [Log_malloc 5242880]"]
    unfolding s by (simp add: safiStats_init_def mb b0 d)
qed

text \<open>
  As first stated the claim scales every byte value. The release of 5242880 bytes that the
  store never counted as reserved leaves \<open>m_reserved\<close> at -5242880, and the report
  writes it in B.
\<close>

theorem negative_reserved_is_not_scaled:
  "m_reserved (run_record_ops safiStats_init [Log_free 5242880]) = - 5242880
   \<and> print ''now'' (run_record_ops safiStats_init [Log_free 5242880]) ! 2
       = ''Currently reserved: -5242880 B'' @ [CHR 0x0A]"
proof -
  have s: "m_reserved (run_record_ops safiStats_init [Log_free 5242880]) = - 5242880"
    by (simp add: safiStats_init_def log_defs)
  have "dec_nat 5242880 = ''5242880''"
    by (simp add: dec_nat_digit dec_nat_more)
  then have "scaled_line ''Currently reserved:'' (- 5242880)
      = ''Currently reserved: -5242880 B'' @ [CHR 0x0A]"
    by (simp add: scaled_line_def dec_long_def)
  with s show ?thesis by (simp add: print_def print_size_scaled_line)
qed

section \<open>Properties of the reporting thread\<close>

lemma disabled_stays:
  "m_disable_print (shared_stats s) \<Longrightarrow> m_disable_print (shared_stats (sys_step s a))"
proof (cases a)
  case Daemon_step
  assume "m_disable_print (shared_stats s)"
  with Daemon_step show ?thesis
    by (cases "pc s") (simp_all add: print_safi_stats_step_def isPrintEnabled_def)
next
  case Main_disablePrint
  then show ?thesis by (simp add: disablePrint_def)
next
  case (App_record x)
  assume "m_disable_print (shared_stats s)"
  with App_record show ?thesis by (cases x) (simp_all add: log_defs)
qed

lemma daemon_step_when_disabled:
  assumes "m_disable_print (shared_stats s)"
  shows "steps_to_return (pc (print_safi_stats_step s)) = steps_to_return (pc s) - 1
    \<and> trace (print_safi_stats_step s) @ rest_of_iteration (pc (print_safi_stats_step s))
        = trace s @ rest_of_iteration (pc s)"
  using assms by (cases "pc s") (simp_all add: print_safi_stats_step_def isPrintEnabled_def)

lemma other_step_keeps_daemon:
  "a \<noteq> Daemon_step \<Longrightarrow> pc (sys_step s a) = pc s \<and> trace (sys_step s a) = trace s"
  by (cases a) simp_all

lemma daemon_returns:
  "m_disable_print (shared_stats s) \<Longrightarrow> steps_to_return (pc s) \<le> count_list acts Daemon_step \<Longrightarrow>
   pc (run_actions s acts) = Returned
   \<and> trace (run_actions s acts) = trace s @ rest_of_iteration (pc s)"
proof (induction acts arbitrary: s)
  case Nil
  then show ?case by (cases "pc s") simp_all
next
  case (Cons a as)
  have flag: "m_disable_print (shared_stats (sys_step s a))"
    using Cons.prems(1) by (rule disabled_stays)
  show ?case
  proof (cases "a = Daemon_step")
    case True
    from daemon_step_when_disabled [OF Cons.prems(1)] True
    have st: "steps_to_return (pc (sys_step s a)) = steps_to_return (pc s) - 1"
      and tr: "trace (sys_step s a) @ rest_of_iteration (pc (sys_step s a))
        = trace s @ rest_of_iteration (pc s)" by simp_all
    from st Cons.prems(2) True
    have "steps_to_return (pc (sys_step s a)) \<le> count_list as Daemon_step" by simp
    from Cons.IH [OF flag this] tr show ?thesis by simp
  next
    case False
    from other_step_keeps_daemon [OF False]
    have same: "pc (sys_step s a) = pc s" "trace (sys_step s a) = trace s" by simp_all
    from Cons.prems(2) False
    have "steps_to_return (pc (sys_step s a)) \<le> count_list as Daemon_step" by (simp add: same)
    from Cons.IH [OF flag this] same show ?thesis by simp
  qed
qed

lemma steps_to_return_le: "steps_to_return p \<le> 3"
  by (cases p) simp_all

text \<open>
  C6. Once \<open>m_disable_print\<close> is set (\<open>main_hook\<close> calls \<open>disablePrint\<close>) it stays set,
  whatever the other threads do, and the reporting thread returns after at most three
  more steps of its own, having done only what was left of its iteration: from the sleep
  it completes the sleep, makes the call of \<open>print\<close> that follows, reads the flag at the
  loop test and leaves the loop. While the flag is not set, an iteration from the loop test
  is a sleep of \<open>PRINT_FREQ_IN_SEC\<close> = 5 seconds, then \<open>print\<close>, then the loop test
  again. The threads are interleaved step by step.
\<close>

theorem reporting_daemon_stops:
  "(m_disable_print (shared_stats s) \<and> 3 \<le> count_list acts Daemon_step \<longrightarrow>
      pc (run_actions s acts) = Returned
      \<and> trace (run_actions s acts) = trace s @ rest_of_iteration (pc s))
   \<and> (\<not> m_disable_print (shared_stats s) \<and> pc s = At_loop_test \<longrightarrow>
      run_actions s [Daemon_step, Daemon_step, Daemon_step]
        = s\<lparr>trace := trace s @ [Sleep_for 5, Print]\<rparr>)"
proof (rule conjI; rule impI)
  assume a: "m_disable_print (shared_stats s) \<and> 3 \<le> count_list acts Daemon_step"
  then have "steps_to_return (pc s) \<le> count_list acts Daemon_step"
    using steps_to_return_le [of "pc s"] by linarith
  with a show "pc (run_actions s acts) = Returned
      \<and> trace (run_actions s acts) = trace s @ rest_of_iteration (pc s)"
    using daemon_returns [of s acts] by blast
next
  assume "\<not> m_disable_print (shared_stats s) \<and> pc s = At_loop_test"
  then show "run_actions s [Daemon_step, Daemon_step, Daemon_step]
        = s\<lparr>trace := trace s @ [Sleep_for 5, Print]\<rparr>"
    by (simp add: print_safi_stats_step_def isPrintEnabled_def PRINT_FREQ_IN_SEC_def)
qed

theorem reporting_daemon_stops_witness:
  "run_actions daemon_start [Daemon_step, Daemon_step, Daemon_step]
      = daemon_start\<lparr>trace := [Sleep_for 5, Print]\<rparr>
   \<and> pc (run_actions daemon_start [Daemon_step, Main_disablePrint]) = At_sleep
   \<and> m_disable_print (shared_stats (run_actions daemon_start [Daemon_step, Main_disablePrint]))
   \<and> pc (run_actions daemon_start
        [Daemon_step, Main_disablePrint, Daemon_step, App_record (Log_malloc 24), Daemon_step,
         Daemon_step]) = Returned
   \<and> trace (run_actions daemon_start
        [Daemon_step, Main_disablePrint, Daemon_step, App_record (Log_malloc 24), Daemon_step,
         Daemon_step]) = [Sleep_for 5, Print]"
proof -
  define s1 where "s1 = run_actions daemon_start [Daemon_step, Main_disablePrint]"
  have s1: "pc s1 = At_sleep" "m_disable_print (shared_stats s1)" "trace s1 = []"
    by (simp_all add: s1_def daemon_start_def safiStats_init_def print_safi_stats_step_def
        isPrintEnabled_def disablePrint_def)
  have run: "run_actions daemon_start
        [Daemon_step, Main_disablePrint, Daemon_step, App_record (Log_malloc 24), Daemon_step,
         Daemon_step]
      = run_actions s1 [Daemon_step, App_record (Log_malloc 24), Daemon_step, Daemon_step]"
    by (simp add: s1_def)
  have a: "run_actions daemon_start [Daemon_step, Daemon_step, Daemon_step]
      = daemon_start\<lparr>trace := [Sleep_for 5, Print]\<rparr>"
    using reporting_daemon_stops [of daemon_start "[]"]
    by (simp add: daemon_start_def safiStats_init_def)
  have b: "pc (run_actions s1 [Daemon_step, App_record (Log_malloc 24), Daemon_step, Daemon_step])
        = Returned
      \<and> trace (run_actions s1 [Daemon_step, App_record (Log_malloc 24), Daemon_step, Daemon_step])
        = [Sleep_for 5, Print]"
    using reporting_daemon_stops
      [of s1 "[Daemon_step, App_record (Log_malloc 24), Daemon_step, Daemon_step]"] s1
    by (simp add: PRINT_FREQ_IN_SEC_def)
  show ?thesis unfolding run unfolding s1_def [symmetric] using a b s1 by blast
qed

section \<open>Properties of the interposition layer\<close>

lemmas layer_defs = malloc_def calloc_def free_def realloc_def init_safi_def SafiControl_init_def
  lookup_def temp_malloc_def TEMP_BUFFER_SIZE_def malloc_usable_size_def
  malloc_resolved_def calloc_resolved_def realloc_resolved_def free_resolved_def

lemmas toy_defs = toy_libc_def toy_malloc_def toy_calloc_def toy_free_def toy_realloc_def
  toy_round_def toy_heap_init_def toy_start_def world_init_def safiStats_init_def
  safiControl_init_def

subsection \<open>The initialisation\<close>

text \<open>
  The lookups of \<open>SafiControl::init\<close> touch the arena offset only, and a resolution that
  returns has resolved all four primitives and cleared \<open>pending_init\<close>.
\<close>

lemma temp_mallocs_frame:
  "temp_mallocs env ns w = Inr w' \<Longrightarrow>
   safiStats w' = safiStats w \<and> heap w' = heap w \<and> mem w' = mem w
   \<and> real_calls w' = real_calls w \<and> safiControl w' = safiControl w
   \<and> print_thread w' = print_thread w"
proof (induction ns arbitrary: w)
  case Nil
  then show ?case by simp
next
  case (Cons n ns)
  from Cons.prems obtain p w1 where
    t: "temp_malloc env n w = Inr (p, w1)" and r: "temp_mallocs env ns w1 = Inr w'"
    by (auto split: sum.splits)
  from t have "w1 = w\<lparr>used_buffer_size := used_buffer_size w + n\<rparr>"
    by (simp add: temp_malloc_def split: if_splits)
  with Cons.IH [OF r] show ?case by simp
qed

lemma lookup_frame:
  "lookup env name w = Inr (f, w') \<Longrightarrow>
   safiStats w' = safiStats w \<and> heap w' = heap w \<and> mem w' = mem w
   \<and> real_calls w' = real_calls w \<and> safiControl w' = safiControl w
   \<and> print_thread w' = print_thread w"
  by (auto simp: lookup_def split: sum.splits dest: temp_mallocs_frame)

lemma SafiControl_init_frame:
  assumes "SafiControl_init env w = Inr w'"
  shows "safiStats w' = safiStats w \<and> heap w' = heap w \<and> mem w' = mem w
   \<and> real_calls w' = real_calls w \<and> print_thread w' = print_thread w
   \<and> \<not> pending_init (safiControl w')
   \<and> orig_malloc (safiControl w') = resolved \<and> orig_calloc (safiControl w') = resolved
   \<and> orig_realloc (safiControl w') = resolved \<and> orig_free (safiControl w') = resolved"
proof -
  from assms obtain f1 w1 f2 w2 f3 w3 f4 w4 where
    l1: "lookup env Sym_malloc (w\<lparr>safiControl := (safiControl w)\<lparr>pending_init := True\<rparr>\<rparr>)
          = Inr (f1, w1)"
    and l2: "lookup env Sym_calloc (w1\<lparr>safiControl := (safiControl w1)\<lparr>orig_malloc := f1\<rparr>\<rparr>)
          = Inr (f2, w2)"
    and l3: "lookup env Sym_realloc (w2\<lparr>safiControl := (safiControl w2)\<lparr>orig_calloc := f2\<rparr>\<rparr>)
          = Inr (f3, w3)"
    and l4: "lookup env Sym_free (w3\<lparr>safiControl := (safiControl w3)\<lparr>orig_realloc := f3\<rparr>\<rparr>)
          = Inr (f4, w4)"
    and fin: "(let c = (safiControl w4)\<lparr>orig_free := f4\<rparr> in
           if orig_malloc c = nullptr \<or> orig_calloc c = nullptr
              \<or> orig_realloc c = nullptr \<or> orig_free c = nullptr
           then Inl (Exit 1)
           else Inr (w4\<lparr>safiControl := c\<lparr>pending_init := False\<rparr>\<rparr>)) = Inr w'"
    unfolding SafiControl_init_def by (auto split: sum.splits prod.splits)
  note f1 = lookup_frame [OF l1] and f2 = lookup_frame [OF l2]
    and f3 = lookup_frame [OF l3] and f4 = lookup_frame [OF l4]
  from fin have w': "w' = w4\<lparr>safiControl := (safiControl w4)\<lparr>orig_free := f4, pending_init := False\<rparr>\<rparr>"
    and nn: "orig_malloc (safiControl w4) \<noteq> nullptr" "orig_calloc (safiControl w4) \<noteq> nullptr"
       "orig_realloc (safiControl w4) \<noteq> nullptr" "f4 \<noteq> nullptr"
    by (simp_all add: Let_def split: if_splits)
  have res: "\<And>f. f \<noteq> nullptr \<Longrightarrow> f = resolved" by (metis fn_ptr.exhaust)
  from w' nn f1 f2 f3 f4 show ?thesis by (simp add: res)
qed

lemma thread_request_control:
  "safiControl (thread_request env w r) = safiControl w"
  by (cases r)
    (simp_all add: malloc_resolved_def calloc_resolved_def realloc_resolved_def
      free_resolved_def Let_def split: prod.splits)

lemma thread_requests_control:
  "safiControl (foldl (thread_request env) w rs) = safiControl w"
  by (induction rs arbitrary: w) (simp_all add: thread_request_control)

lemma init_safi_resolves:
  assumes "init_safi env w = Inr w'"
  shows "\<not> pending_init (safiControl w')
   \<and> orig_malloc (safiControl w') = resolved \<and> orig_calloc (safiControl w') = resolved
   \<and> orig_realloc (safiControl w') = resolved \<and> orig_free (safiControl w') = resolved"
proof -
  define w1 where "w1 = (if getenv_MEM_SAFI_DEBUG env = Some ''1''
                then w\<lparr>safiControl := (safiControl w)\<lparr>debug := True\<rparr>\<rparr> else w)"
  from assms obtain w2 where i: "SafiControl_init env w1 = Inr w2"
    and w': "w' = (foldl (thread_request env) w2 (thread_requests env))
          \<lparr>print_thread := print_thread (foldl (thread_request env) w2 (thread_requests env)) + 1\<rparr>"
    unfolding init_safi_def Let_def w1_def by (auto split: sum.splits)
  from w' have "safiControl w' = safiControl w2" by (simp add: thread_requests_control)
  with SafiControl_init_frame [OF i] show ?thesis by simp
qed

subsection \<open>The small allocator, evaluated\<close>

lemma toy_init:
  "init_safi toy_libc toy_start =
     Inr \<lparr>safiStats = safiStats_init\<lparr>m_reserved := 344, m_total_reserved := 344,
            m_real_peak := 344, m_num_mallocs := 2, m_num_callocs := 1\<rparr>,
        safiControl = \<lparr>debug = False, pending_init = False, orig_malloc = resolved,
            orig_calloc = resolved, orig_realloc = resolved, orig_free = resolved,
            orig_main = nullptr\<rparr>,
        print_thread = 1, used_buffer_size = 128,
        mem = memset (\<lambda>_. 0xAA) 0x1000040 0 288,
        heap = ((\<lambda>_. 0)(0x1000000 := 24, 0x1000020 := 24, 0x1000040 := 296), 0x1000170),
        real_calls = [Call_malloc 8, Call_malloc 24, Call_calloc 1 288]\<rparr>"
  by (simp add: layer_defs toy_defs log_defs std_max_def word_sless_alt)

lemma toy_resolved_eq:
  "toy_resolved =
       \<lparr>safiStats = safiStats_init\<lparr>m_reserved := 344, m_total_reserved := 344,
            m_real_peak := 344, m_num_mallocs := 2, m_num_callocs := 1\<rparr>,
        safiControl = \<lparr>debug = False, pending_init = False, orig_malloc = resolved,
            orig_calloc = resolved, orig_realloc = resolved, orig_free = resolved,
            orig_main = nullptr\<rparr>,
        print_thread = 1, used_buffer_size = 128,
        mem = memset (\<lambda>_. 0xAA) 0x1000040 0 288,
        heap = ((\<lambda>_. 0)(0x1000000 := 24, 0x1000020 := 24, 0x1000040 := 296), 0x1000170),
        real_calls = [Call_malloc 8, Call_malloc 24, Call_calloc 1 288]\<rparr>"
  by (simp add: toy_resolved_def toy_init)

lemma toy_first_use:
  "(if orig_malloc (safiControl toy_start) = nullptr
    then init_safi toy_libc toy_start else Inr toy_start) = Inr toy_resolved"
  by (simp add: toy_resolved_def toy_init) (simp add: toy_defs)

lemma toy_first_malloc:
  "malloc toy_libc 100 toy_start =
     Inr (0x1000170,
       \<lparr>safiStats = safiStats_init\<lparr>m_reserved := 448, m_total_reserved := 448,
            m_real_peak := 448, m_num_mallocs := 3, m_num_callocs := 1\<rparr>,
        safiControl = \<lparr>debug = False, pending_init = False, orig_malloc = resolved,
            orig_calloc = resolved, orig_realloc = resolved, orig_free = resolved,
            orig_main = nullptr\<rparr>,
        print_thread = 1, used_buffer_size = 128,
        mem = memset (\<lambda>_. 0xAA) 0x1000040 0 288,
        heap = ((\<lambda>_. 0)(0x1000000 := 24, 0x1000020 := 24, 0x1000040 := 296,
                  0x1000170 := 104), 0x10001E0),
        real_calls = [Call_malloc 8, Call_malloc 24, Call_calloc 1 288, Call_malloc 100]\<rparr>)"
  by (simp add: layer_defs toy_defs log_defs std_max_def word_sless_alt)

lemma toy_running_eq:
  "toy_running =
       \<lparr>safiStats = safiStats_init\<lparr>m_reserved := 448, m_total_reserved := 448,
            m_real_peak := 448, m_num_mallocs := 3, m_num_callocs := 1\<rparr>,
        safiControl = \<lparr>debug = False, pending_init = False, orig_malloc = resolved,
            orig_calloc = resolved, orig_realloc = resolved, orig_free = resolved,
            orig_main = nullptr\<rparr>,
        print_thread = 1, used_buffer_size = 128,
        mem = memset (\<lambda>_. 0xAA) 0x1000040 0 288,
        heap = ((\<lambda>_. 0)(0x1000000 := 24, 0x1000020 := 24, 0x1000040 := 296,
                  0x1000170 := 104), 0x10001E0),
        real_calls = [Call_malloc 8, Call_malloc 24, Call_calloc 1 288, Call_malloc 100]\<rparr>"
  by (simp add: toy_running_def toy_first_malloc)

subsection \<open>Release of arena pointers\<close>

text \<open>
  A pointer that \<open>__temp_malloc\<close> hands out passes the test at the head of \<open>free\<close> from
  then on, when the array lies in the address space without wrapping around and the
  request is no larger than the array.
\<close>

lemma temp_malloc_pointer_is_covered:
  assumes "temp_malloc env sz w = Inr (p, w')"
    and "unat (temp_buffer env) + 80000 < 2 ^ 64"
    and "used_buffer_size w \<le> TEMP_BUFFER_SIZE" and "sz \<le> TEMP_BUFFER_SIZE"
  shows "temp_buffer env \<le> p \<and> p \<le> temp_buffer env + used_buffer_size w'"
proof -
  from assms(1) have le: "used_buffer_size w + sz \<le> TEMP_BUFFER_SIZE"
    and p: "p = temp_buffer env + used_buffer_size w"
    and w': "used_buffer_size w' = used_buffer_size w + sz"
    by (auto simp: temp_malloc_def split: if_splits)
  have u: "unat (used_buffer_size w) \<le> 80000" and s: "unat sz \<le> 80000"
    using assms(3,4) by (simp_all add: TEMP_BUFFER_SIZE_def word_le_nat_alt)
  have us: "unat (used_buffer_size w + sz) = unat (used_buffer_size w) + unat sz"
    using u s by (simp add: unat_word_ariths)
  with le have us_le: "unat (used_buffer_size w) + unat sz \<le> 80000"
    by (simp add: TEMP_BUFFER_SIZE_def word_le_nat_alt)
  have a1: "unat (temp_buffer env + used_buffer_size w)
      = unat (temp_buffer env) + unat (used_buffer_size w)"
    using u assms(2) by (simp add: unat_word_ariths)
  have a2: "unat (temp_buffer env + (used_buffer_size w + sz))
      = unat (temp_buffer env) + (unat (used_buffer_size w) + unat sz)"
    using us us_le assms(2) by (simp add: unat_add_lem [THEN iffD1])
  show ?thesis unfolding p w' by (simp add: word_le_nat_alt a1 a2)
qed

text \<open>
  C4 (as amended). For every pointer in the part of the arena handed out so far, that is
  \<open>temp_buffer <= ptr <= temp_buffer + used_buffer_size\<close>, \<open>free\<close> returns at once: the
  whole state is as before, so no counter of the store changes and the real \<open>free\<close> is not
  called.
\<close>

theorem free_of_handed_out_arena_is_noop:
  "temp_buffer env \<le> p \<Longrightarrow> p \<le> temp_buffer env + used_buffer_size w \<Longrightarrow>
   free env p w = Inr w"
  by (simp add: free_def)

theorem free_of_handed_out_arena_is_noop_witness:
  "temp_buffer toy_libc \<le> 0x601040
   \<and> 0x601040 \<le> temp_buffer toy_libc + used_buffer_size toy_running
   \<and> in_temp_buffer toy_libc 0x601040
   \<and> free toy_libc 0x601040 toy_running = Inr toy_running"
proof -
  have h: "temp_buffer toy_libc \<le> 0x601040"
    "0x601040 \<le> temp_buffer toy_libc + used_buffer_size toy_running"
    by (simp_all add: toy_running_eq toy_libc_def)
  have "in_temp_buffer toy_libc 0x601040"
    by (simp add: in_temp_buffer_def toy_libc_def TEMP_BUFFER_SIZE_def)
  with h free_of_handed_out_arena_is_noop [OF h] show ?thesis by simp
qed

text \<open>
  The test of \<open>free\<close> ends at \<open>used_buffer_size\<close>, not at the end of the array: a pointer
  in the array beyond the part handed out is released like a heap pointer. After the first
  \<open>malloc(100)\<close> of the small process 128 bytes of the arena are in use; the release of
  \<open>temp_buffer + 4096\<close> is counted and reaches the real \<open>free\<close>.
\<close>

theorem free_in_unused_arena_reaches_real_free:
  "in_temp_buffer toy_libc 0x602000
   \<and> m_num_frees (safiStats toy_running) = 0
   \<and> real_calls toy_running
        = [Call_malloc 8, Call_malloc 24, Call_calloc 1 288, Call_malloc 100]
   \<and> (case free toy_libc 0x602000 toy_running of
         Inr w' \<Rightarrow> (m_num_frees (safiStats w'), real_calls w')
       | Inl e \<Rightarrow> (0, []))
      = (1, [Call_malloc 8, Call_malloc 24, Call_calloc 1 288, Call_malloc 100,
             Call_free 0x602000])"
  by (simp add: in_temp_buffer_def TEMP_BUFFER_SIZE_def toy_running_eq free_def free_resolved_def
      toy_libc_def toy_free_def malloc_usable_size_def log_free_def Let_def safiStats_init_def)

subsection \<open>A null result of the real malloc\<close>

text \<open>
  C5. When \<open>malloc\<close> reaches the real \<open>malloc\<close> (outside the resolution window, in
  the state \<open>w1\<close> left by the lazy initialisation with the allocations its thread
  creation records, which is the state of the call itself when \<open>orig_malloc\<close> is
  resolved already) and the real \<open>malloc\<close> returns a null pointer, \<open>malloc\<close> returns
  null, and \<open>m_reserved\<close>, \<open>m_total_reserved\<close> and \<open>m_freed\<close> are as they were when
  the real \<open>malloc\<close> was called: the size recorded for the null result is the usable
  size of the null pointer, 0. The call is still counted in \<open>m_num_mallocs\<close>.
\<close>

theorem malloc_null_passes_through:
  assumes "\<not> pending_init (safiControl w)"
    and "(if orig_malloc (safiControl w) = nullptr then init_safi env w else Inr w) = Inr w1"
    and "fst (real_malloc env (heap w1) (mem w1) sz) = 0"
  shows "\<exists>w'. malloc env sz w = Inr (0, w')
     \<and> m_reserved (safiStats w') = m_reserved (safiStats w1)
     \<and> m_total_reserved (safiStats w') = m_total_reserved (safiStats w1)
     \<and> m_freed (safiStats w') = m_freed (safiStats w1)
     \<and> m_num_mallocs (safiStats w') = m_num_mallocs (safiStats w1) + 1
     \<and> real_calls w' = real_calls w1 @ [Call_malloc sz]"
proof -
  obtain p h m where r: "real_malloc env (heap w1) (mem w1) sz = (p, h, m)"
    by (cases "real_malloc env (heap w1) (mem w1) sz") auto
  with assms(3) have p: "p = 0" by simp
  from assms(1,2) r p show ?thesis
    by (simp add: malloc_def malloc_resolved_def malloc_usable_size_def log_malloc_def
        log_alloc_helper_def Let_def)
qed

theorem malloc_null_passes_through_witness:
  "(case malloc toy_libc 0x200000000 toy_running of
      Inr (p, w') \<Rightarrow> (p, m_reserved (safiStats w'), m_total_reserved (safiStats w'),
                      m_num_mallocs (safiStats w'), real_calls w')
    | Inl e \<Rightarrow> (1, 0, 0, 0, []))
     = (0, 448, 448, 4,
        [Call_malloc 8, Call_malloc 24, Call_calloc 1 288, Call_malloc 100,
         Call_malloc 0x200000000])
   \<and> m_reserved (safiStats toy_resolved) = 344
   \<and> (case malloc toy_libc 0x200000000 toy_start of
      Inr (p, w') \<Rightarrow> (p, m_reserved (safiStats w'), m_total_reserved (safiStats w'),
                      m_num_mallocs (safiStats w'), real_calls w')
    | Inl e \<Rightarrow> (1, 0, 0, 0, []))
     = (0, 344, 344, 3,
        [Call_malloc 8, Call_malloc 24, Call_calloc 1 288, Call_malloc 0x200000000])"
proof -
  have a1: "\<not> pending_init (safiControl toy_running)" by (simp add: toy_running_eq)
  have a2: "(if orig_malloc (safiControl toy_running) = nullptr
       then init_safi toy_libc toy_running else Inr toy_running) = Inr toy_running"
    by (simp add: toy_running_eq)
  have a3: "fst (real_malloc toy_libc (heap toy_running) (mem toy_running) 0x200000000) = 0"
    by (simp add: toy_libc_def toy_malloc_def)
  have b1: "\<not> pending_init (safiControl toy_start)" by (simp add: toy_defs)
  note b2 = toy_first_use
  have b3: "fst (real_malloc toy_libc (heap toy_resolved) (mem toy_resolved) 0x200000000) = 0"
    by (simp add: toy_libc_def toy_malloc_def)
  from malloc_null_passes_through [OF a1 a2 a3] obtain wa where
    a: "malloc toy_libc 0x200000000 toy_running = Inr (0, wa)"
      "m_reserved (safiStats wa) = m_reserved (safiStats toy_running)"
      "m_total_reserved (safiStats wa) = m_total_reserved (safiStats toy_running)"
      "m_num_mallocs (safiStats wa) = m_num_mallocs (safiStats toy_running) + 1"
      "real_calls wa = real_calls toy_running @ [Call_malloc 0x200000000]"
    by blast
  from malloc_null_passes_through [OF b1 b2 b3] obtain wb where
    b: "malloc toy_libc 0x200000000 toy_start = Inr (0, wb)"
      "m_reserved (safiStats wb) = m_reserved (safiStats toy_resolved)"
      "m_total_reserved (safiStats wb) = m_total_reserved (safiStats toy_resolved)"
      "m_num_mallocs (safiStats wb) = m_num_mallocs (safiStats toy_resolved) + 1"
      "real_calls wb = real_calls toy_resolved @ [Call_malloc 0x200000000]"
    by blast
  have ra: "m_reserved (safiStats toy_running) = 448"
    "m_total_reserved (safiStats toy_running) = 448"
    "m_num_mallocs (safiStats toy_running) = 3"
    "real_calls toy_running = [Call_malloc 8, Call_malloc 24, Call_calloc 1 288, Call_malloc 100]"
    by (simp_all add: toy_running_eq safiStats_init_def)
  have rb: "m_reserved (safiStats toy_resolved) = 344"
    "m_total_reserved (safiStats toy_resolved) = 344"
    "m_num_mallocs (safiStats toy_resolved) = 2"
    "real_calls toy_resolved = [Call_malloc 8, Call_malloc 24, Call_calloc 1 288]"
    by (simp_all add: toy_resolved_eq safiStats_init_def)
  show ?thesis by (simp add: a b ra rb)
qed

subsection \<open>calloc before the real calloc is resolved\<close>

lemma memset_zero_region:
  fixes n :: size_t
  assumes "i < unat n"
  shows "memset m p 0 n (p + of_nat i) = 0"
proof -
  from assms have "i \<le> unat n" by simp
  then have "unat (of_nat i :: size_t) = i" by (rule le_unat_uoi)
  with assms have "(of_nat i :: size_t) < n" by (simp add: word_less_nat_alt)
  then show ?thesis by (simp add: memset_def)
qed

lemma calloc_first_use:
  assumes "orig_calloc (safiControl w) = nullptr" and "\<not> pending_init (safiControl w)"
    and "(if orig_malloc (safiControl w) = nullptr then init_safi env w else Inr w) = Inr w1"
    and "unat num * unat sz < 2 ^ 64"
    and "real_malloc env (heap w1) (mem w1) (num * sz) = (p, h, m)" and "p \<noteq> 0"
  shows "\<exists>w'. calloc env num sz w = Inr (p, w')
     \<and> (\<forall>i < unat num * unat sz. mem w' (p + of_nat i) = 0)
     \<and> m_num_mallocs (safiStats w') = m_num_mallocs (safiStats w1) + 1
     \<and> m_num_callocs (safiStats w') = m_num_callocs (safiStats w1)"
proof -
  have n: "unat (num * sz) = unat num * unat sz"
    using assms(4) by (simp add: unat_mult_lem [THEN iffD1])
  define w' where "w' = (snd (malloc_resolved env (num * sz) w1))
      \<lparr>mem := memset (mem (snd (malloc_resolved env (num * sz) w1))) p 0 (num * sz)\<rparr>"
  from assms have c: "calloc env num sz w = Inr (p, w')"
    by (simp add: calloc_def malloc_def malloc_resolved_def w'_def)
  have z: "\<forall>i < unat num * unat sz. mem w' (p + of_nat i) = 0"
    using memset_zero_region [of _ "num * sz"] by (simp add: w'_def n)
  from assms(5) have s: "m_num_mallocs (safiStats w') = m_num_mallocs (safiStats w1) + 1"
    "m_num_callocs (safiStats w') = m_num_callocs (safiStats w1)"
    by (simp_all add: w'_def malloc_resolved_def log_malloc_def log_alloc_helper_def Let_def)
  from c z s show ?thesis by blast
qed

lemma calloc_in_resolution_window:
  assumes "orig_calloc (safiControl w) = nullptr" and "pending_init (safiControl w)"
    and "unat (used_buffer_size w) + unat num * unat sz \<le> 80000"
    and "temp_buffer env + used_buffer_size w \<noteq> 0"
  shows "\<exists>w'. calloc env num sz w = Inr (temp_buffer env + used_buffer_size w, w')
     \<and> (\<forall>i < unat num * unat sz.
           mem w' (temp_buffer env + used_buffer_size w + of_nat i) = 0)
     \<and> safiStats w' = safiStats w \<and> real_calls w' = real_calls w
     \<and> used_buffer_size w' = used_buffer_size w + num * sz"
proof -
  from assms(3) have "unat num * unat sz < 2 ^ 64" by simp
  then have n: "unat (num * sz) = unat num * unat sz"
    by (simp add: unat_mult_lem [THEN iffD1])
  with assms(3) have "unat (used_buffer_size w) + unat (num * sz) < 2 ^ 64" by simp
  then have "unat (used_buffer_size w + num * sz) = unat (used_buffer_size w) + unat (num * sz)"
    by (simp add: unat_add_lem [THEN iffD1])
  with assms(3) n have fits: "\<not> TEMP_BUFFER_SIZE < used_buffer_size w + num * sz"
    by (simp add: TEMP_BUFFER_SIZE_def word_less_nat_alt)
  define w' where "w' = w\<lparr>used_buffer_size := used_buffer_size w + num * sz,
      mem := memset (mem w) (temp_buffer env + used_buffer_size w) 0 (num * sz)\<rparr>"
  from assms(1,2,4) fits
  have c: "calloc env num sz w = Inr (temp_buffer env + used_buffer_size w, w')"
    by (simp add: calloc_def malloc_def temp_malloc_def w'_def)
  have z: "\<forall>i < unat num * unat sz.
      mem w' (temp_buffer env + used_buffer_size w + of_nat i) = 0"
    using memset_zero_region [of _ "num * sz"] by (simp add: w'_def n)
  from c z show ?thesis by (auto simp: w'_def)
qed

text \<open>
  C7 (as amended). A call \<open>calloc(num, size)\<close> made while \<open>orig_calloc\<close> is null goes
  through \<open>malloc(num * size)\<close> and \<open>memset\<close>; the product is taken not to overflow
  \<open>size_t\<close>. Outside the resolution window, when the initialisation succeeds (leaving
  the state \<open>w1\<close>, with what the creation of the thread has recorded) and the real
  \<open>malloc\<close> returns a pointer that is not null, the result is that pointer, the
  \<open>num * size\<close> bytes from it are zero, and the call itself adds one to \<open>m_num_mallocs\<close>
  and nothing to \<open>m_num_callocs\<close>, counted from \<open>w1\<close>. Inside the resolution window
  (\<open>pending_init\<close> set) the request is served by \<open>__temp_malloc\<close>: when it fits in what
  is left of the array, the result points to \<open>num * size\<close> zero bytes of the arena and the
  store is as before, \<open>m_num_mallocs\<close> included.
\<close>

theorem calloc_fallback:
  "(orig_calloc (safiControl w) = nullptr \<and> \<not> pending_init (safiControl w)
      \<and> (if orig_malloc (safiControl w) = nullptr then init_safi env w else Inr w) = Inr w1
      \<and> unat num * unat sz < 2 ^ 64
      \<and> real_malloc env (heap w1) (mem w1) (num * sz) = (p, h, m) \<and> p \<noteq> 0 \<longrightarrow>
      (\<exists>w'. calloc env num sz w = Inr (p, w')
         \<and> (\<forall>i < unat num * unat sz. mem w' (p + of_nat i) = 0)
         \<and> m_num_mallocs (safiStats w') = m_num_mallocs (safiStats w1) + 1
         \<and> m_num_callocs (safiStats w') = m_num_callocs (safiStats w1)))
   \<and> (orig_calloc (safiControl w) = nullptr \<and> pending_init (safiControl w)
      \<and> unat (used_buffer_size w) + unat num * unat sz \<le> 80000
      \<and> temp_buffer env + used_buffer_size w \<noteq> 0 \<longrightarrow>
      (\<exists>w'. calloc env num sz w = Inr (temp_buffer env + used_buffer_size w, w')
         \<and> (\<forall>i < unat num * unat sz.
               mem w' (temp_buffer env + used_buffer_size w + of_nat i) = 0)
         \<and> safiStats w' = safiStats w \<and> real_calls w' = real_calls w
         \<and> used_buffer_size w' = used_buffer_size w + num * sz))"
  using calloc_first_use [of w env w1 num sz p h m] calloc_in_resolution_window [of w num sz env]
  by blast

theorem calloc_fallback_witness:
  "m_num_mallocs (safiStats toy_resolved) = 2 \<and> m_num_callocs (safiStats toy_resolved) = 1
   \<and> (case calloc toy_libc 10 8 toy_start of
      Inr (p, w') \<Rightarrow> (p, mem w' p, mem w' (p + 79), mem w' (p + 80),
                      m_num_mallocs (safiStats w'), m_num_callocs (safiStats w'))
    | Inl e \<Rightarrow> (0, 1, 1, 1, 0, 0))
     = (0x1000170, 0, 0, 0xAA, 3, 1)
   \<and> (case calloc toy_libc 10 8 toy_pending of
      Inr (p, w') \<Rightarrow> (p, mem w' p, mem w' (p + 79), mem w' (p + 80),
                      safiStats w' = safiStats toy_pending, used_buffer_size w')
    | Inl e \<Rightarrow> (0, 1, 1, 1, False, 0))
     = (0x601000, 0, 0, 0xAA, True, 80)"
proof -
  have a: "orig_calloc (safiControl toy_start) = nullptr \<and> \<not> pending_init (safiControl toy_start)
      \<and> (if orig_malloc (safiControl toy_start) = nullptr
          then init_safi toy_libc toy_start else Inr toy_start) = Inr toy_resolved
      \<and> unat (10 :: size_t) * unat (8 :: size_t) < 2 ^ 64
      \<and> real_malloc toy_libc (heap toy_resolved) (mem toy_resolved) (10 * 8)
          = (0x1000170, fst (snd (real_malloc toy_libc (heap toy_resolved) (mem toy_resolved) (10 * 8))),
             snd (snd (real_malloc toy_libc (heap toy_resolved) (mem toy_resolved) (10 * 8))))
      \<and> (0x1000170 :: ptr) \<noteq> 0"
    using toy_first_use
    by (simp add: toy_resolved_eq toy_libc_def toy_malloc_def toy_round_def)
      (simp add: toy_defs)
  have b: "orig_calloc (safiControl toy_pending) = nullptr \<and> pending_init (safiControl toy_pending)
      \<and> unat (used_buffer_size toy_pending) + unat (10 :: size_t) * unat (8 :: size_t) \<le> 80000
      \<and> temp_buffer toy_libc + used_buffer_size toy_pending \<noteq> 0"
    by (simp add: toy_pending_def toy_defs)
  from calloc_fallback [of toy_start toy_libc toy_resolved 10 8 "0x1000170"
      "fst (snd (real_malloc toy_libc (heap toy_resolved) (mem toy_resolved) (10 * 8)))"
      "snd (snd (real_malloc toy_libc (heap toy_resolved) (mem toy_resolved) (10 * 8)))"] a
  obtain wa where wa: "calloc toy_libc 10 8 toy_start = Inr (0x1000170, wa)"
    and za: "\<forall>i < unat (10 :: size_t) * unat (8 :: size_t). mem wa (0x1000170 + of_nat i) = 0"
    and ca: "m_num_mallocs (safiStats wa) = m_num_mallocs (safiStats toy_resolved) + 1"
      "m_num_callocs (safiStats wa) = m_num_callocs (safiStats toy_resolved)"
    by blast
  from calloc_fallback [of toy_pending toy_libc toy_resolved 10 8 0 undefined undefined] b
  obtain wb where wb: "calloc toy_libc 10 8 toy_pending
        = Inr (temp_buffer toy_libc + used_buffer_size toy_pending, wb)"
    and zb: "\<forall>i < unat (10 :: size_t) * unat (8 :: size_t).
        mem wb (temp_buffer toy_libc + used_buffer_size toy_pending + of_nat i) = 0"
    and cb: "safiStats wb = safiStats toy_pending"
      "used_buffer_size wb = used_buffer_size toy_pending + 10 * 8"
    by blast
  have pb: "temp_buffer toy_libc = 0x601000" "used_buffer_size toy_pending = 0"
    by (simp_all add: toy_pending_def toy_defs)
  have ea: "\<exists>w'. calloc toy_libc 10 8 toy_start = Inr (0x1000170, w') \<and> mem w' 0x10001C0 = 0xAA"
    by (simp add: layer_defs toy_defs log_defs std_max_def word_sless_alt memset_def)
  have eb: "\<exists>w'. calloc toy_libc 10 8 toy_pending = Inr (0x601000, w') \<and> mem w' 0x601050 = 0xAA"
    by (simp add: toy_pending_def layer_defs toy_defs memset_def)
  from ea wa have xa: "mem wa 0x10001C0 = 0xAA" by auto
  from eb wb pb have xb: "mem wb 0x601050 = 0xAA" by auto
  from za [rule_format, of 0] za [rule_format, of 79]
  have ya: "mem wa 0x1000170 = 0" "mem wa 0x10001BF = 0" by simp_all
  from zb [rule_format, of 0] zb [rule_format, of 79] pb
  have yb: "mem wb 0x601000 = 0" "mem wb 0x60104F = 0" by simp_all
  have st: "m_num_mallocs (safiStats toy_resolved) = 2"
    "m_num_callocs (safiStats toy_resolved) = 1"
    by (simp_all add: toy_resolved_eq safiStats_init_def)
  show ?thesis using wb by (simp add: wa pb ca cb xa xb ya yb st)
qed

text \<open>
  As first stated the claim counts every such call in \<open>m_num_mallocs\<close>.
  \<open>calloc(10, 8)\<close> inside the first lookup returns the start of the arena and counts
  nothing.
\<close>

theorem calloc_in_window_counts_nothing:
  "orig_calloc (safiControl toy_pending) = nullptr
   \<and> m_num_mallocs (safiStats toy_pending) = 0
   \<and> (case calloc toy_libc 10 8 toy_pending of
         Inr (p, w') \<Rightarrow> (p, m_num_mallocs (safiStats w'), m_num_callocs (safiStats w'))
       | Inl e \<Rightarrow> (0, 1, 1))
      = (0x601000, 0, 0)"
  by (simp add: toy_pending_def toy_defs calloc_def malloc_def temp_malloc_def
      TEMP_BUFFER_SIZE_def)

subsection \<open>realloc with the real realloc resolved\<close>

text \<open>
  C8. With \<open>orig_realloc\<close> resolved, \<open>realloc(ptr, size)\<close> returns what the real
  \<open>realloc\<close> returns and changes \<open>m_reserved\<close> by exactly the usable size of the new
  block after the call minus the usable size of \<open>ptr\<close> read before the call (64-bit
  arithmetic, so a shrinking block gives a negative change). The requested size enters
  only through the real allocator.
\<close>

theorem realloc_records_usable_difference:
  assumes "orig_realloc (safiControl w) \<noteq> nullptr"
    and "real_realloc env (heap w) (mem w) p sz = (new_ptr, h, m)"
  shows "\<exists>w'. realloc env p sz w = Inr (new_ptr, w')
     \<and> heap w' = h \<and> real_calls w' = real_calls w @ [Call_realloc p sz]
     \<and> m_reserved (safiStats w') =
         m_reserved (safiStats w)
           + (malloc_usable_size env h new_ptr - malloc_usable_size env (heap w) p)"
  using assms
  by (simp add: realloc_def realloc_resolved_def Let_def log_realloc_def log_alloc_helper_def)

theorem realloc_records_usable_difference_witness:
  "orig_realloc (safiControl toy_running) \<noteq> nullptr
   \<and> malloc_usable_size toy_libc (heap toy_running) 0x1000170 = 104
   \<and> m_reserved (safiStats toy_running) = 448
   \<and> (case realloc toy_libc 0x1000170 200 toy_running of
         Inr (q, w') \<Rightarrow> (q, malloc_usable_size toy_libc (heap w') q, m_reserved (safiStats w'))
       | Inl e \<Rightarrow> (0, 0, 0)) = (0x10001E0, 200, 544)
   \<and> (case realloc toy_libc 0x1000170 10 toy_running of
         Inr (q, w') \<Rightarrow> (q, malloc_usable_size toy_libc (heap w') q, m_reserved (safiStats w'))
       | Inl e \<Rightarrow> (0, 0, 0)) = (0x10001E0, 24, 368)"
proof -
  have r: "orig_realloc (safiControl toy_running) \<noteq> nullptr"
    by (simp add: toy_running_eq)
  have u: "malloc_usable_size toy_libc (heap toy_running) 0x1000170 = 104"
    "m_reserved (safiStats toy_running) = 448"
    by (simp_all add: toy_running_eq malloc_usable_size_def toy_libc_def safiStats_init_def)
  define hg where "hg = fst (snd (real_realloc toy_libc (heap toy_running) (mem toy_running)
      0x1000170 200))"
  define mg where "mg = snd (snd (real_realloc toy_libc (heap toy_running) (mem toy_running)
      0x1000170 200))"
  define hs where "hs = fst (snd (real_realloc toy_libc (heap toy_running) (mem toy_running)
      0x1000170 10))"
  define ms where "ms = snd (snd (real_realloc toy_libc (heap toy_running) (mem toy_running)
      0x1000170 10))"
  have g: "real_realloc toy_libc (heap toy_running) (mem toy_running) 0x1000170 200
      = (0x10001E0, hg, mg)"
    unfolding hg_def mg_def
    by (simp add: toy_running_eq toy_libc_def toy_realloc_def toy_malloc_def toy_round_def)
  have s: "real_realloc toy_libc (heap toy_running) (mem toy_running) 0x1000170 10
      = (0x10001E0, hs, ms)"
    unfolding hs_def ms_def
    by (simp add: toy_running_eq toy_libc_def toy_realloc_def toy_malloc_def toy_round_def)
  have mg: "malloc_usable_size toy_libc hg 0x10001E0 = 200"
    unfolding hg_def
    by (simp add: toy_running_eq malloc_usable_size_def toy_libc_def toy_realloc_def
        toy_malloc_def toy_round_def)
  have ms: "malloc_usable_size toy_libc hs 0x10001E0 = 24"
    unfolding hs_def
    by (simp add: toy_running_eq malloc_usable_size_def toy_libc_def toy_realloc_def
        toy_malloc_def toy_round_def)
  from realloc_records_usable_difference [OF r g] obtain w1 where
    g1: "realloc toy_libc 0x1000170 200 toy_running = Inr (0x10001E0, w1)"
    and g2: "heap w1 = hg"
    and g3: "m_reserved (safiStats w1) = m_reserved (safiStats toy_running)
       + (malloc_usable_size toy_libc hg 0x10001E0
           - malloc_usable_size toy_libc (heap toy_running) 0x1000170)"
    by blast
  from realloc_records_usable_difference [OF r s] obtain w2 where
    s1: "realloc toy_libc 0x1000170 10 toy_running = Inr (0x10001E0, w2)"
    and s2: "heap w2 = hs"
    and s3: "m_reserved (safiStats w2) = m_reserved (safiStats toy_running)
       + (malloc_usable_size toy_libc hs 0x10001E0
           - malloc_usable_size toy_libc (heap toy_running) 0x1000170)"
    by blast
  show ?thesis
    using r u by (simp add: g1 g2 g3 s1 s2 s3 mg ms)
qed

subsection \<open>Release of a null pointer\<close>

text \<open>
  C10. With \<open>orig_free\<close> resolved (the array \<open>temp_buffer\<close> is an object, so its address is
  not null), \<open>free(nullptr)\<close> records a release of size 0: \<open>m_num_frees\<close> is one more, every
  other member of the store is as before, in particular \<open>m_reserved\<close>,
  \<open>m_total_reserved\<close> and \<open>m_freed\<close>; and the null pointer is passed on to the real
  \<open>free\<close>.
\<close>

theorem free_null_after_resolution:
  assumes "temp_buffer env \<noteq> 0" and "orig_free (safiControl w) \<noteq> nullptr"
  shows "free env 0 w =
     Inr (w\<lparr>safiStats := (safiStats w)\<lparr>m_num_frees := m_num_frees (safiStats w) + 1\<rparr>,
            heap := fst (real_free env (heap w) (mem w) 0),
            mem := snd (real_free env (heap w) (mem w) 0),
            real_calls := real_calls w @ [Call_free 0]\<rparr>)"
  using assms
  by (simp add: free_def free_resolved_def malloc_usable_size_def log_free_def Let_def
      split: prod.splits)

theorem free_null_after_resolution_witness:
  "temp_buffer toy_libc \<noteq> 0 \<and> orig_free (safiControl toy_running) \<noteq> nullptr
   \<and> free toy_libc 0 toy_running =
       Inr (toy_running\<lparr>safiStats := safiStats_init\<lparr>m_reserved := 448, m_total_reserved := 448,
              m_real_peak := 448, m_freed := 0, m_num_mallocs := 3, m_num_callocs := 1,
              m_num_frees := 1\<rparr>,
            real_calls := [Call_malloc 8, Call_malloc 24, Call_calloc 1 288, Call_malloc 100,
              Call_free 0]\<rparr>)"
proof -
  have h: "temp_buffer toy_libc \<noteq> 0" "orig_free (safiControl toy_running) \<noteq> nullptr"
    by (simp_all add: toy_running_eq toy_libc_def)
  from free_null_after_resolution [OF h] h show ?thesis
    by (simp add: toy_running_eq toy_libc_def toy_free_def safiStats_init_def)
qed

end
